theory Spec2Isabelle
  imports Main
begin

section \<open>Strings, patterns and listings\<close>

text \<open>
  The manager drives the host through shell pipelines over directory listings
  (\<^verbatim>\<open>ls /opt | grep 'openjdk-' | head -n 1\<close>) and through \<^verbatim>\<open>sed\<close> line filters.
  The text functions those pipelines need are written out here.
\<close>

fun starts_with :: "string \<Rightarrow> string \<Rightarrow> bool" where
  "starts_with [] s = True"
| "starts_with (p # ps) [] = False"
| "starts_with (p # ps) (c # cs) = (p = c \<and> starts_with ps cs)"

text \<open>\<^verbatim>\<open>grep 'P'\<close> keeps the lines that contain the fixed text P somewhere.\<close>

fun contains :: "string \<Rightarrow> string \<Rightarrow> bool" where
  "contains p [] = (p = [])"
| "contains p (c # cs) = (starts_with p (c # cs) \<or> contains p cs)"

text \<open>
  \<^verbatim>\<open>sed 's/P//'\<close> and JavaScript's \<^verbatim>\<open>s.replace("P", "")\<close> delete the first
  occurrence of P.
\<close>

fun remove_first :: "string \<Rightarrow> string \<Rightarrow> string" where
  "remove_first p [] = []"
| "remove_first p (c # cs) =
     (if starts_with p (c # cs) then drop (length p) (c # cs) else c # remove_first p cs)"

definition is_space :: "char \<Rightarrow> bool" where
  "is_space c = (c = CHR '' '' \<or> c = CHR 0x0A \<or> c = CHR 0x09 \<or> c = CHR 0x0D)"

text \<open>JavaScript's \<^verbatim>\<open>String.prototype.trim\<close>.\<close>

definition trim :: "string \<Rightarrow> string" where
  "trim s = rev (dropWhile is_space (rev (dropWhile is_space s)))"

fun join_lines :: "string list \<Rightarrow> string" where
  "join_lines [] = []"
| "join_lines [l] = l"
| "join_lines (l # r) = l @ [CHR 0x0A] @ join_lines r"

text \<open>JavaScript's \<^verbatim>\<open>s.split("\n")\<close>: the empty string splits into one empty line.\<close>

fun split_lines_acc :: "string \<Rightarrow> string \<Rightarrow> string list" where
  "split_lines_acc acc [] = [rev acc]"
| "split_lines_acc acc (c # cs) =
     (if c = CHR 0x0A then rev acc # split_lines_acc [] cs else split_lines_acc (c # acc) cs)"

definition split_lines :: "string \<Rightarrow> string list" where
  "split_lines s = split_lines_acc [] s"

text \<open>\<^verbatim>\<open>ls\<close> prints names in byte order; \<^verbatim>\<open>sort -V\<close> uses the order it is given.\<close>

fun name_le :: "string \<Rightarrow> string \<Rightarrow> bool" where
  "name_le [] t = True"
| "name_le (c # cs) [] = False"
| "name_le (c # cs) (d # ds) =
     (if c = d then name_le cs ds else (of_char c :: nat) < of_char d)"

fun insert_by :: "('a \<Rightarrow> 'a \<Rightarrow> bool) \<Rightarrow> 'a \<Rightarrow> 'a list \<Rightarrow> 'a list" where
  "insert_by le x [] = [x]"
| "insert_by le x (y # ys) = (if le x y then x # y # ys else y # insert_by le x ys)"

fun sort_by :: "('a \<Rightarrow> 'a \<Rightarrow> bool) \<Rightarrow> 'a list \<Rightarrow> 'a list" where
  "sort_by le [] = []"
| "sort_by le (x # xs) = insert_by le x (sort_by le xs)"

text \<open>\<^verbatim>\<open>head -n 1\<close> and \<^verbatim>\<open>tail -n 1\<close> of a listing; no line gives the empty output.\<close>

fun head1 :: "string list \<Rightarrow> string" where
  "head1 [] = []"
| "head1 (l # r) = l"

fun tail1 :: "string list \<Rightarrow> string" where
  "tail1 [] = []"
| "tail1 [l] = l"
| "tail1 (l # r) = tail1 r"

section \<open>The host\<close>

text \<open>
  The directories the manager touches. A path is a directory and an entry name:
  \<^verbatim>\<open>/opt/openjdk-17\<close> is \<open>(Opt, ''openjdk-17'')\<close>,
  \<^verbatim>\<open>/opt/java_backups/openjdk-17\<close> is \<open>(JavaBackups, ''openjdk-17'')\<close>.
  The two backup directories live under \<^verbatim>\<open>/opt\<close>, but their names match none of
  the patterns (\<^verbatim>\<open>openjdk-\<close>, \<^verbatim>\<open>tomcat-\<close>, \<^verbatim>\<open>jdk\<close>) the listings of \<^verbatim>\<open>/opt\<close>
  are filtered with, so they are kept apart from the entries of \<open>Opt\<close>.
\<close>

datatype dir = Opt | JavaBackups | TomcatBackups | Systemd | LibSystemd | Tmp

type_synonym path = "dir \<times> string"

text \<open>
  What an entry holds: a directory tree named by where its content came from, a
  downloaded archive, or a service unit file (version, JAVA_HOME, CATALINA_HOME).
\<close>

datatype payload = Tree string | Archive string | UnitFile string string string

datatype textfile = EtcProfile | EtcEnvironment | Bashrc | BashProfile | Zshrc

datatype msg = Log string | Warn string | Err string

text \<open>The desired state read from \<^verbatim>\<open>mavee_config_upgrade.json\<close> or \<^verbatim>\<open>mavee_config_install.json\<close>.\<close>

record config =
  javaVersion :: string
  javaUrl :: string
  tomcatVersion :: string
  tomcatUrl :: string

text \<open>
  The host: the entries of the directories, the lines of the shell and environment
  files (\<open>None\<close> for a file that does not exist), the enabled and the running
  service units, the parsed upgrade descriptor (\<open>None\<close> when the file is missing or
  malformed), the content of \<^verbatim>\<open>previous_versions.json\<close>, and what was printed.
  \<^verbatim>\<open>installTomcat\<close> starts one command without waiting for it; \<open>awaiting_user_setup\<close>
  says that this command has been started and that its callback has not run yet.
\<close>

record host =
  files :: "(path \<times> payload) list"
  upgrade_config :: "config option"
  text_of :: "textfile \<Rightarrow> string list option"
  enabled :: "string list"
  active :: "string list"
  previous_versions :: "(string \<times> string) option"
  console :: "msg list"
  awaiting_user_setup :: bool

definition lookup :: "path \<Rightarrow> host \<Rightarrow> payload option" where
  "lookup p s = map_of (files s) p"

definition existsSync :: "path \<Rightarrow> host \<Rightarrow> bool" where
  "existsSync p s = (lookup p s \<noteq> None)"

definition put :: "path \<Rightarrow> payload \<Rightarrow> host \<Rightarrow> host" where
  "put p x s = s\<lparr>files := (p, x) # filter (\<lambda>e. fst e \<noteq> p) (files s)\<rparr>"

definition remove_where :: "(path \<Rightarrow> bool) \<Rightarrow> host \<Rightarrow> host" where
  "remove_where P s = s\<lparr>files := filter (\<lambda>e. \<not> P (fst e)) (files s)\<rparr>"

definition names_in :: "dir \<Rightarrow> host \<Rightarrow> string list" where
  "names_in d s = map (snd \<circ> fst) (filter (\<lambda>e. fst (fst e) = d) (files s))"

definition ls :: "dir \<Rightarrow> host \<Rightarrow> string list" where
  "ls d s = sort_by name_le (names_in d s)"

section \<open>Shell commands\<close>

text \<open>
  Every command the manager hands to \<^verbatim>\<open>exec\<close>, by what it does to the host. Commands
  with no effect on the modelled state (package manager, user management,
  \<^verbatim>\<open>daemon-reload\<close>) are \<open>Other\<close> with their text; \<open>Needs p t\<close> is a command
  \<open>t\<close> that only works when \<open>p\<close> exists (\<^verbatim>\<open>chown\<close>, \<^verbatim>\<open>chmod\<close>, a start script).
\<close>

datatype pat = StartsWith string | Contains string | StartsWithThen string string

fun matches :: "pat \<Rightarrow> string \<Rightarrow> bool" where
  "matches (StartsWith p) l = starts_with p l"
| "matches (Contains p) l = contains p l"
| "matches (StartsWithThen p q) l = (starts_with p l \<and> contains q (drop (length p) l))"

datatype cmd =
    LsGrepHead dir string
  | LsGrepSedHead dir string
  | LsGrepSortTail dir string
  | LsGrepGrepV dir string string
  | RmRf path
  | RmRfGlob dir string
  | RmRfDir dir
  | RmGlob dir string string
  | RmPreviousVersions
  | CpR path path
  | Mv path path
  | MkdirP path
  | Wget string path
  | TarX path dir
  | TarXStrip path path
  | Tee path payload
  | SedDel textfile pat
  | TeeAppend textfile string
  | TeeOverwrite textfile string
  | Source textfile
  | EchoJavaHome
  | StopUnits string
  | DisableUnits string
  | Enable string
  | Restart string
  | ServiceRestartOr string
  | Needs path string
  | Other string
  | OrTrue cmd

text \<open>
  What lies outside the program: which command invocations fail for a reason of
  their own (network, permissions, a full disk), the name of the top-level folder
  of the archive behind a URL, the order of \<^verbatim>\<open>sort -V\<close>, the environment of the
  node process, which calls of the \<^verbatim>\<open>fs\<close> module fail, and how many of the callbacks
  of \<^verbatim>\<open>installTomcat\<close>'s own commands run before the callback of the command it
  started on the side.
\<close>

datatype fsop = WriteFile | ChmodFile | ChownFile | Unlink

record world =
  fails :: "cmd \<Rightarrow> host \<Rightarrow> bool"
  archive_root :: "string \<Rightarrow> string"
  version_le :: "string \<Rightarrow> string \<Rightarrow> bool"
  env_JAVA_HOME :: string
  env_USER :: "string option"
  fs_fails :: "fsop \<Rightarrow> host \<Rightarrow> bool"
  user_setup_done_after :: nat

definition set_text :: "textfile \<Rightarrow> string list \<Rightarrow> host \<Rightarrow> host" where
  "set_text f lns s = s\<lparr>text_of := (text_of s)(f := Some lns)\<rparr>"

definition unit_file :: "string \<Rightarrow> path" where
  "unit_file u = (Systemd, u @ ''.service'')"

text \<open>
  The effect of one command that is not failed from outside: its output and the
  new host, or \<open>None\<close> when the command itself exits non-zero. A pipeline ending
  in \<^verbatim>\<open>head\<close> or \<^verbatim>\<open>tail\<close> exits 0 whatever \<^verbatim>\<open>grep\<close> found. \<^verbatim>\<open>cp -r\<close> and \<^verbatim>\<open>mv\<close>
  onto an existing directory copy or move into it, which leaves the entry of that
  name as it was.
\<close>

fun effect :: "world \<Rightarrow> cmd \<Rightarrow> host \<Rightarrow> (string \<times> host) option" where
  "effect w (LsGrepHead d p) s = Some (head1 (filter (contains p) (ls d s)), s)"
| "effect w (LsGrepSedHead d p) s =
     Some (head1 (map (remove_first p) (filter (contains p) (ls d s))), s)"
| "effect w (LsGrepSortTail d p) s =
     Some (tail1 (sort_by (version_le w) (filter (contains p) (ls d s))), s)"
| "effect w (LsGrepGrepV d p q) s =
     Some (join_lines (filter (\<lambda>n. \<not> contains q n) (filter (contains p) (ls d s))), s)"
| "effect w (RmRf p) s = Some ([], remove_where (\<lambda>q. q = p) s)"
| "effect w (RmRfGlob d pre) s =
     Some ([], remove_where (\<lambda>q. fst q = d \<and> starts_with pre (snd q)) s)"
| "effect w (RmRfDir d) s = Some ([], remove_where (\<lambda>q. fst q = d) s)"
| "effect w (RmGlob d pre suf) s =
     Some ([], remove_where (\<lambda>q. fst q = d \<and> starts_with pre (snd q)
                 \<and> starts_with (rev suf) (rev (drop (length pre) (snd q)))) s)"
| "effect w RmPreviousVersions s = Some ([], s\<lparr>previous_versions := None\<rparr>)"
| "effect w (CpR src dst) s =
     (case lookup src s of
        None \<Rightarrow> None
      | Some x \<Rightarrow> Some ([], if existsSync dst s then s else put dst x s))"
| "effect w (Mv src dst) s =
     (case lookup src s of
        None \<Rightarrow> None
      | Some x \<Rightarrow>
          if src = dst then None
          else Some ([], if existsSync dst s then remove_where (\<lambda>q. q = src) s
                         else put dst x (remove_where (\<lambda>q. q = src) s)))"
| "effect w (MkdirP p) s = Some ([], if existsSync p s then s else put p (Tree []) s)"
| "effect w (Wget url p) s = Some ([], put p (Archive url) s)"
| "effect w (TarX f d) s =
     (case lookup f s of
        Some (Archive url) \<Rightarrow> Some ([], put (d, archive_root w url) (Tree url) s)
      | _ \<Rightarrow> None)"
| "effect w (TarXStrip f p) s =
     (case lookup f s of
        Some (Archive url) \<Rightarrow> if existsSync p s then Some ([], put p (Tree url) s) else None
      | _ \<Rightarrow> None)"
| "effect w (Tee p x) s = Some ([], put p x s)"
| "effect w (SedDel f pt) s =
     (case text_of s f of
        None \<Rightarrow> None
      | Some lns \<Rightarrow> Some ([], set_text f (filter (\<lambda>l. \<not> matches pt l) lns) s))"
| "effect w (TeeAppend f l) s =
     Some ([], set_text f ((case text_of s f of None \<Rightarrow> [] | Some lns \<Rightarrow> lns) @ [l]) s)"
| "effect w (TeeOverwrite f l) s = Some ([], set_text f [l] s)"
| "effect w (Source f) s = (if text_of s f = None then None else Some ([], s))"
| "effect w EchoJavaHome s = Some (env_JAVA_HOME w, s)"
| "effect w (StopUnits pre) s =
     Some ([], s\<lparr>active := filter (\<lambda>u. \<not> starts_with pre u) (active s)\<rparr>)"
| "effect w (DisableUnits pre) s =
     Some ([], s\<lparr>enabled := filter (\<lambda>u. \<not> starts_with pre u) (enabled s)\<rparr>)"
| "effect w (Enable u) s =
     (if existsSync (unit_file u) s
      then Some ([], s\<lparr>enabled := u # filter (\<lambda>v. v \<noteq> u) (enabled s)\<rparr>) else None)"
| "effect w (Restart u) s =
     (if existsSync (unit_file u) s
      then Some ([], s\<lparr>active := u # filter (\<lambda>v. v \<noteq> u) (active s)\<rparr>) else None)"
| "effect w (ServiceRestartOr u) s =
     (if existsSync (Opt, u) s
      then Some ([], if existsSync (unit_file u) s
                     then s\<lparr>active := u # filter (\<lambda>v. v \<noteq> u) (active s)\<rparr> else s)
      else None)"
| "effect w (Needs p t) s = (if existsSync p s then Some ([], s) else None)"
| "effect w (Other t) s = Some ([], s)"
| "effect w (OrTrue c) s = (case effect w c s of None \<Rightarrow> Some ([], s) | Some r \<Rightarrow> Some r)"

section \<open>Promises, exceptions and process exit\<close>

text \<open>
  An \<^verbatim>\<open>async\<close> function either returns, throws (rejects), or ends the process with
  \<^verbatim>\<open>process.exit\<close>. A \<^verbatim>\<open>catch\<close> block catches what was thrown, never an exit.
\<close>

datatype error = CommandFailed cmd | ConfigError | Rejected string | FsError fsop

datatype 'a outcome = Return 'a | Throw error | Exit nat

type_synonym 'a proc = "host \<Rightarrow> 'a outcome \<times> host"

definition ret :: "'a \<Rightarrow> 'a proc" where
  "ret a s = (Return a, s)"

definition throw :: "error \<Rightarrow> 'a proc" where
  "throw e s = (Throw e, s)"

definition process_exit :: "nat \<Rightarrow> 'a proc" where
  "process_exit n s = (Exit n, s)"

definition bind :: "'a proc \<Rightarrow> ('a \<Rightarrow> 'b proc) \<Rightarrow> 'b proc" where
  "bind m f s =
     (case m s of
        (Return a, s') \<Rightarrow> f a s'
      | (Throw e, s') \<Rightarrow> (Throw e, s')
      | (Exit n, s') \<Rightarrow> (Exit n, s'))"

definition next_do :: "'a proc \<Rightarrow> 'b proc \<Rightarrow> 'b proc" where
  "next_do m n = bind m (\<lambda>_. n)"

definition try_catch :: "'a proc \<Rightarrow> (error \<Rightarrow> 'a proc) \<Rightarrow> 'a proc" where
  "try_catch m h s =
     (case m s of
        (Return a, s') \<Rightarrow> (Return a, s')
      | (Throw e, s') \<Rightarrow> h e s'
      | (Exit n, s') \<Rightarrow> (Exit n, s'))"

fun seq :: "unit proc list \<Rightarrow> unit proc" where
  "seq [] = ret ()"
| "seq (m # ms) = next_do m (seq ms)"

definition print :: "msg \<Rightarrow> unit proc" where
  "print m s = (Return (), s\<lparr>console := console s @ [m]\<rparr>)"

text \<open>One command given to the shell: it fails from outside, or by itself, or runs.\<close>

definition sh :: "world \<Rightarrow> cmd \<Rightarrow> string proc" where
  "sh w c s =
     (if fails w c s then (Throw (CommandFailed c), s)
      else case effect w c s of
             None \<Rightarrow> (Throw (CommandFailed c), s)
           | Some (out, s') \<Rightarrow> (Return out, s'))"

text \<open>
  \<^verbatim>\<open>a && b && c\<close> stops at the first command that exits non-zero. A script of
  several lines runs every line and exits with the status of the last one.
\<close>

fun and_chain :: "world \<Rightarrow> cmd list \<Rightarrow> string proc" where
  "and_chain w [] = ret []"
| "and_chain w [c] = sh w c"
| "and_chain w (c # cs) = next_do (sh w c) (and_chain w cs)"

fun script_lines :: "world \<Rightarrow> cmd list \<Rightarrow> string proc" where
  "script_lines w [] = ret []"
| "script_lines w [c] = sh w c"
| "script_lines w (c # cs) = next_do (try_catch (sh w c) (\<lambda>e. ret [])) (script_lines w cs)"

text \<open>
  A line in which \<^verbatim>\<open>|| true\<close> stands between commands joined by \<^verbatim>\<open>&&\<close>. The shell
  groups such a list to the left: \<^verbatim>\<open>a && b || true && c\<close> is
  \<^verbatim>\<open>((a && b) || true) && c\<close>. A command after \<^verbatim>\<open>&&\<close> runs when the status so far
  is zero, and \<^verbatim>\<open>|| true\<close> sets the status to zero, so it makes up for the failure
  of any command before it, and the commands after it run. The output is what the
  commands that ran have printed.
\<close>

datatype step = AndThen cmd | OrElseTrue

fun and_or_list :: "world \<Rightarrow> step list \<Rightarrow> error option \<Rightarrow> string \<Rightarrow> string proc" where
  "and_or_list w [] None out s = (Return out, s)"
| "and_or_list w [] (Some e) out s = (Throw e, s)"
| "and_or_list w (AndThen c # r) None out s =
     (case sh w c s of
        (Return out', s') \<Rightarrow> and_or_list w r None (out @ out') s'
      | (Throw e, s') \<Rightarrow> and_or_list w r (Some e) out s'
      | (Exit n, s') \<Rightarrow> (Exit n, s'))"
| "and_or_list w (AndThen c # r) (Some e) out s = and_or_list w r (Some e) out s"
| "and_or_list w (OrElseTrue # r) status out s = and_or_list w r None out s"

datatype shell = Cmd cmd | AndChain "cmd list" | Lines "cmd list" | AndOrList "step list"

fun exec :: "world \<Rightarrow> shell \<Rightarrow> string proc" where
  "exec w (Cmd c) = sh w c"
| "exec w (AndChain cs) = and_chain w cs"
| "exec w (Lines cs) = script_lines w cs"
| "exec w (AndOrList sts) = and_or_list w sts None []"

text \<open>
  \<^verbatim>\<open>runCommand\<close> of upgrade.js and rollback.js: on an error it prints the failing
  command and rejects; otherwise it resolves with the trimmed output.
\<close>

definition runCommand :: "world \<Rightarrow> shell \<Rightarrow> string proc" where
  "runCommand w c =
     try_catch (bind (exec w c) (\<lambda>out. ret (trim out)))
       (\<lambda>e. next_do (print (Err ''Command failed''))
              (next_do (print (Err ''Error: '')) (throw e)))"

definition run :: "world \<Rightarrow> cmd \<Rightarrow> unit proc" where
  "run w c = next_do (runCommand w (Cmd c)) (ret ())"

section \<open>uninstall.js\<close>

text \<open>
  Its own \<^verbatim>\<open>runCommand\<close> prints the output of a command that worked and rejects
  with the error of one that did not. \<^verbatim>\<open>uninstallJava\<close> joins its commands with
  \<^verbatim>\<open>&&\<close> into one line; the \<^verbatim>\<open>|| true\<close> written after the \<^verbatim>\<open>sed\<close> on \<^verbatim>\<open>~/.zshrc\<close> then
  stands in the middle of that line.
\<close>

definition runCommand_u :: "world \<Rightarrow> shell \<Rightarrow> string proc" where
  "runCommand_u w c =
     try_catch
       (bind (exec w c) (\<lambda>out. next_do (print (Log (''Success: '' @ trim out))) (ret (trim out))))
       (\<lambda>e. next_do (print (Err ''Error: '')) (throw e))"

definition run_u :: "world \<Rightarrow> cmd \<Rightarrow> unit proc" where
  "run_u w c = next_do (runCommand_u w (Cmd c)) (ret ())"

definition uninstallJava :: "world \<Rightarrow> unit proc" where
  "uninstallJava w =
     next_do (print (Log ''Uninstalling Java...''))
       (try_catch
          (next_do
             (runCommand_u w (AndOrList
                [AndThen (RmRfGlob Opt ''openjdk-''),
                 AndThen (RmRfDir JavaBackups),
                 AndThen (SedDel EtcEnvironment (Contains ''JAVA_HOME'')),
                 AndThen (SedDel EtcProfile (Contains ''JAVA_HOME'')),
                 AndThen (SedDel Bashrc (Contains ''JAVA_HOME'')),
                 AndThen (SedDel BashProfile (Contains ''JAVA_HOME'')),
                 AndThen (SedDel Zshrc (Contains ''JAVA_HOME'')),
                 OrElseTrue,
                 AndThen (Other ''unset JAVA_HOME''),
                 AndThen (Source EtcEnvironment),
                 AndThen (Source Bashrc)]))
             (print (Log ''Java uninstalled successfully.'')))
          (\<lambda>e. print (Err ''Java uninstallation failed.'')))"

definition uninstallTomcat_cmds :: "cmd list" where
  "uninstallTomcat_cmds =
     [OrTrue (StopUnits ''tomcat-''),
      OrTrue (DisableUnits ''tomcat-''),
      OrTrue (Other ''sudo systemctl daemon-reexec''),
      OrTrue (Other ''sudo systemctl daemon-reload''),
      RmGlob Systemd ''tomcat-'' ''.service'',
      RmGlob LibSystemd ''tomcat-'' ''.service'',
      Other ''ps aux | grep -i tomcat | grep -v grep | awk | xargs sudo kill -9'',
      OrTrue (RmRfGlob Opt ''tomcat-''),
      OrTrue (RmRfDir TomcatBackups),
      SedDel EtcEnvironment (Contains ''CATALINA_HOME''),
      SedDel EtcProfile (Contains ''CATALINA_HOME''),
      SedDel Bashrc (Contains ''CATALINA_HOME''),
      SedDel BashProfile (Contains ''CATALINA_HOME''),
      OrTrue (SedDel Zshrc (Contains ''CATALINA_HOME''))]"

definition uninstallTomcat :: "world \<Rightarrow> unit proc" where
  "uninstallTomcat w =
     next_do (print (Log ''Uninstalling Tomcat...''))
       (try_catch
          (next_do (seq (map (run_u w) uninstallTomcat_cmds))
             (print (Log ''Tomcat uninstalled successfully.'')))
          (\<lambda>e. print (Err ''Tomcat uninstallation failed.'')))"

text \<open>
  \<^verbatim>\<open>fs.unlinkSync\<close> may throw; the inner \<^verbatim>\<open>catch\<close> then removes the file with
  \<^verbatim>\<open>sudo rm -f\<close>.
\<close>

definition unlinkSync_previous_versions :: "world \<Rightarrow> unit proc" where
  "unlinkSync_previous_versions w s =
     (if fs_fails w Unlink s then (Throw (FsError Unlink), s)
      else (Return (), s\<lparr>previous_versions := None\<rparr>))"

definition removePreviousVersionsFile :: "world \<Rightarrow> unit proc" where
  "removePreviousVersionsFile w =
     try_catch
       (\<lambda>s. if previous_versions s \<noteq> None
            then seq
              [print (Log ''Removing previous_versions.json...''),
               (case env_USER w of
                  Some u \<Rightarrow> next_do (run_u w (Other ''sudo chown previous_versions.json''))
                             (print (Log ''Changed ownership of previous_versions.json''))
                | None \<Rightarrow> print (Warn ''Unable to determine current user. Proceeding with sudo...'')),
               run_u w (Other ''sudo chmod 777 previous_versions.json''),
               print (Log ''Changed file permissions to 777 (read/write for all users).''),
               try_catch (unlinkSync_previous_versions w) (\<lambda>e. run_u w RmPreviousVersions)] s
            else ret () s)
       (\<lambda>e. print (Err ''Failed to remove previous_versions.json:''))"

definition fullUninstall :: "world \<Rightarrow> unit proc" where
  "fullUninstall w =
     seq [print (Log ''Starting full uninstallation...''),
          uninstallJava w,
          uninstallTomcat w,
          print (Log ''Full uninstallation completed.'')]"

section \<open>upgrade.js\<close>

definition readUpgradeConfiguration :: "config proc" where
  "readUpgradeConfiguration =
     try_catch
       (\<lambda>s. case upgrade_config s of
              None \<Rightarrow> (Throw ConfigError, s)
            | Some c \<Rightarrow> (Return c, s))
       (\<lambda>e. next_do (print (Err ''Failed to read upgrade configuration:'')) (throw e))"

text \<open>
  A version read from the host is \<^verbatim>\<open>null\<close> (\<open>None\<close>) when the listing command
  failed and the empty string when nothing matched.
\<close>

definition getCurrentVersions :: "world \<Rightarrow> (string option \<times> string option) proc" where
  "getCurrentVersions w =
     bind (try_catch
             (bind (runCommand w (Cmd (LsGrepSedHead Opt ''openjdk-''))) (\<lambda>v. ret (Some v)))
             (\<lambda>e. next_do (print (Warn ''No existing Java installation found.'')) (ret None)))
       (\<lambda>currentJavaVersion.
     bind (try_catch
             (bind (runCommand w (Cmd (LsGrepSedHead Opt ''tomcat-''))) (\<lambda>v. ret (Some v)))
             (\<lambda>e. next_do (print (Warn ''No existing Tomcat installation found.'')) (ret None)))
       (\<lambda>currentTomcatVersion.
     ret (currentJavaVersion, currentTomcatVersion)))"

definition validateUpgradeConditions :: "world \<Rightarrow> string \<Rightarrow> string \<Rightarrow> unit proc" where
  "validateUpgradeConditions w jv tv =
     bind (getCurrentVersions w) (\<lambda>(currentJavaVersion, currentTomcatVersion).
       if Some jv = currentJavaVersion \<and> Some tv = currentTomcatVersion
       then next_do
              (print (Err (''Upgrade aborted: Java '' @ jv @ '' and Tomcat '' @ tv
                            @ '' are already installed.'')))
              (process_exit 1)
       else if Some jv = currentJavaVersion
       then next_do (print (Err (''Upgrade aborted: Java '' @ jv @ '' is already installed.'')))
              (process_exit 1)
       else if Some tv = currentTomcatVersion
       then next_do (print (Err (''Upgrade aborted: Tomcat '' @ tv @ '' is already installed.'')))
              (process_exit 1)
       else ret ())"

definition createBackup :: "world \<Rightarrow> path \<Rightarrow> path \<Rightarrow> unit proc" where
  "createBackup w source destination =
     try_catch
       (seq [(\<lambda>s. if existsSync destination s
                  then seq [print (Log ''Backup already exists, removing old backup...''),
                            run w (RmRf destination)] s
                  else ret () s),
             print (Log ''Creating backup''),
             run w (CpR source destination)])
       (\<lambda>e. next_do (print (Err ''Backup creation failed'')) (throw e))"

definition ensureTomcatUserAndGroup :: "world \<Rightarrow> unit proc" where
  "ensureTomcatUserAndGroup w =
     seq [try_catch (run w (Other ''getent group tomcat''))
            (\<lambda>e. run w (Other ''sudo groupadd tomcat'')),
          try_catch (run w (Other ''id -u tomcat''))
            (\<lambda>e. run w (Other ''sudo useradd --system --no-create-home --gid tomcat tomcat''))]"

text \<open>A template literal prints \<^verbatim>\<open>null\<close> as the text null.\<close>

fun show_version :: "string option \<Rightarrow> string" where
  "show_version None = ''null''"
| "show_version (Some v) = v"

text \<open>
  The script that rebinds JAVA_HOME: three \<^verbatim>\<open>sed -i\<close> deletions, then three lines
  appended with \<^verbatim>\<open>tee -a\<close>.
\<close>

definition envCommands :: "string \<Rightarrow> shell" where
  "envCommands javaDir =
     Lines [SedDel EtcProfile (StartsWith ''export JAVA_HOME=''),
            SedDel EtcProfile (StartsWithThen ''export PATH='' ''JAVA_HOME''),
            SedDel EtcEnvironment (StartsWith ''JAVA_HOME=''),
            TeeAppend EtcProfile (''export JAVA_HOME='' @ javaDir),
            TeeAppend EtcProfile ''export PATH=$JAVA_HOME/bin:$PATH'',
            TeeAppend EtcEnvironment (''JAVA_HOME='' @ javaDir)]"

definition restoreJava :: "world \<Rightarrow> string \<Rightarrow> unit proc" where
  "restoreJava w v =
     seq [print (Log (''Restoring Java '' @ v @ '' from backup...'')),
          run w (RmRfGlob Opt ''openjdk-''),
          run w (CpR (JavaBackups, ''openjdk-'' @ v) (Opt, ''openjdk-'' @ v)),
          print (Log (''Restoring environment variables for Java '' @ v @ ''...'')),
          next_do (runCommand w (envCommands (''/opt/openjdk-'' @ v))) (ret ()),
          run w (Source EtcProfile),
          print (Log (''Java '' @ v @ '' rollback and environment restore completed.''))]"

definition restoreTomcat :: "world \<Rightarrow> string \<Rightarrow> unit proc" where
  "restoreTomcat w v =
     seq [print (Log (''Restoring Tomcat '' @ v @ '' from backup...'')),
          run w (RmRfGlob Opt ''tomcat-''),
          run w (CpR (TomcatBackups, ''tomcat-'' @ v) (Opt, ''tomcat-'' @ v)),
          ensureTomcatUserAndGroup w,
          print (Log (''Setting permissions and ownership for Tomcat '' @ v @ ''...'')),
          run w (Needs (Opt, ''tomcat-'' @ v) ''sudo chown -R tomcat:tomcat''),
          run w (Needs (Opt, ''tomcat-'' @ v) ''sudo chmod -R 755''),
          run w (Needs (Opt, ''tomcat-'' @ v) ''sudo chmod -R +x bin/*.sh''),
          print (Log (''Restarting Tomcat service for version '' @ v @ ''...'')),
          run w (ServiceRestartOr (''tomcat-'' @ v)),
          print (Log (''Tomcat '' @ v @ '' restored and restarted.''))]"

text \<open>
  \<^verbatim>\<open>rollbackUpgrade\<close>: each component is restored when the backup directory named
  by the given version exists (\<open>restoreJava\<close> and \<open>restoreTomcat\<close> are the two
  branches), and skipped with a warning otherwise. Whatever is thrown inside is
  caught and printed.
\<close>

definition rollbackUpgrade_try :: "world \<Rightarrow> string option \<Rightarrow> string option \<Rightarrow> unit proc" where
  "rollbackUpgrade_try w previousJavaVersion previousTomcatVersion =
     seq [(\<lambda>s. if existsSync (JavaBackups, ''openjdk-'' @ show_version previousJavaVersion) s
                then restoreJava w (show_version previousJavaVersion) s
                else print (Warn (''No Java backup found for version ''
                       @ show_version previousJavaVersion @ ''. Skipping rollback.'')) s),
          (\<lambda>s. if existsSync (TomcatBackups, ''tomcat-'' @ show_version previousTomcatVersion) s
                then restoreTomcat w (show_version previousTomcatVersion) s
                else print (Warn (''No Tomcat backup found for version ''
                       @ show_version previousTomcatVersion @ ''. Skipping rollback.'')) s),
          print (Log ''Rollback to previous versions completed successfully.'')]"

definition rollbackUpgrade :: "world \<Rightarrow> string option \<Rightarrow> string option \<Rightarrow> unit proc" where
  "rollbackUpgrade w previousJavaVersion previousTomcatVersion =
     next_do (print (Log ''Rolling back due to failure...''))
       (try_catch (rollbackUpgrade_try w previousJavaVersion previousTomcatVersion)
          (\<lambda>e. print (Err ''Rollback failed:'')))"

text \<open>
  \<^verbatim>\<open>upgradeJava\<close>, in two parts: \<open>upgradeJava_try\<close> is the \<^verbatim>\<open>try\<close> block up to the
  removal of the old installation, and \<open>fetchJava\<close> is the rest of the block, from
  the download on. When the download fails, \<^verbatim>\<open>rollbackUpgrade\<close> is called with the
  version being installed and the error is thrown again.
\<close>

definition fetchJava :: "world \<Rightarrow> string \<Rightarrow> string \<Rightarrow> bool proc" where
  "fetchJava w jv jurl =
     (let javaDir = (Opt, ''openjdk-'' @ jv);
          tempTarFile = (Tmp, ''java-'' @ jv @ ''.tar.gz'')
      in
      next_do (print (Log (''Upgrading Java '' @ jv @ '' from '' @ jurl @ ''...'')))
     (next_do (run w (Other ''sudo dnf update && sudo dnf install -y wget''))
     (next_do (try_catch (run w (Wget jurl tempTarFile))
                 (\<lambda>error.
                    next_do (print (Err ''Java download failed. Rolling back...''))
                   (bind (getCurrentVersions w) (\<lambda>(currentJavaVersion, currentTomcatVersion).
                    next_do (rollbackUpgrade w (Some jv) currentTomcatVersion)
                      (throw error)))))
     (next_do (run w (TarX tempTarFile Opt))
     (bind (runCommand w (Cmd (LsGrepHead Opt ''jdk-''))) (\<lambda>extractedFolder.
      next_do (if extractedFolder \<noteq> [] then run w (Mv (Opt, extractedFolder) javaDir)
               else ret ())
     (next_do (run w (RmRf tempTarFile))
     (next_do (runCommand w (envCommands (''/opt/openjdk-'' @ jv)))
     (next_do (run w (Source EtcProfile))
     (next_do (print (Log (''Java '' @ jv @ '' upgraded successfully.'')))
     (ret True)))))))))))"

definition upgradeJava_try :: "world \<Rightarrow> string \<Rightarrow> string \<Rightarrow> bool proc" where
  "upgradeJava_try w jv jurl =
      next_do (run w (Other ''sudo mkdir -p /opt/java_backups''))
     (bind (runCommand w (Cmd (LsGrepHead Opt ''openjdk-''))) (\<lambda>existingJava.
      next_do (if existingJava \<noteq> []
               then seq [createBackup w (Opt, existingJava) (JavaBackups, existingJava),
                         run w (RmRf (Opt, existingJava))]
               else ret ())
        (fetchJava w jv jurl)))"

definition upgradeJava :: "world \<Rightarrow> string \<Rightarrow> string \<Rightarrow> bool proc" where
  "upgradeJava w jv jurl =
     try_catch (upgradeJava_try w jv jurl)
       (\<lambda>e. next_do (print (Err ''Java upgrade failed'')) (throw e))"

text \<open>
  The old unit files are listed with
  \<^verbatim>\<open>ls /etc/systemd/system | grep 'tomcat-' | grep -v 'tomcat-V' || true\<close>, which
  never exits non-zero; the output is split into lines and each file removed.
\<close>

definition pruneOldServices :: "world \<Rightarrow> string \<Rightarrow> unit proc" where
  "pruneOldServices w tv =
     next_do (print (Log ''Checking for old Tomcat service files...''))
    (bind (runCommand w (Cmd (LsGrepGrepV Systemd ''tomcat-'' (''tomcat-'' @ tv)))) (\<lambda>oldServices.
       if oldServices \<noteq> []
       then next_do
              (seq (map (\<lambda>oldService.
                      next_do (print (Log (''Removing old Tomcat service file: '' @ oldService)))
                        (run w (RmRf (Systemd, oldService))))
                    (split_lines oldServices)))
              (run w (Other ''sudo systemctl daemon-reload''))
       else ret ()))"

text \<open>
  \<^verbatim>\<open>upgradeTomcat\<close>, in the same two parts. When the download fails,
  \<^verbatim>\<open>rollbackUpgrade\<close> is called with the versions that \<^verbatim>\<open>getCurrentVersions\<close> reads at
  that moment.
\<close>

definition fetchTomcat :: "world \<Rightarrow> string \<Rightarrow> string \<Rightarrow> string \<Rightarrow> unit proc" where
  "fetchTomcat w tv turl jv =
     (let tomcatDir = (Opt, ''tomcat-'' @ tv);
          tempTarFile = (Tmp, ''tomcat-'' @ tv @ ''.tar.gz'');
          serviceFilePath = unit_file (''tomcat-'' @ tv)
      in
      next_do (print (Log (''Upgrading Tomcat '' @ tv @ '' from '' @ turl @ ''...'')))
     (next_do (try_catch (run w (Wget turl tempTarFile))
                 (\<lambda>error.
                    next_do (print (Err ''Tomcat download failed. Rolling back...''))
                   (bind (getCurrentVersions w) (\<lambda>(currentJavaVersion, currentTomcatVersion).
                    next_do (rollbackUpgrade w currentJavaVersion currentTomcatVersion)
                      (throw error)))))
     (next_do (run w (TarX tempTarFile Opt))
     (bind (runCommand w (Cmd (LsGrepHead Opt ''apache-tomcat-''))) (\<lambda>extractedFolder.
      next_do (if extractedFolder \<noteq> [] then run w (Mv (Opt, extractedFolder) tomcatDir)
               else ret ())
     (seq [run w (RmRf tempTarFile),
           ensureTomcatUserAndGroup w,
           run w (Needs tomcatDir ''sudo chown -R tomcat:tomcat''),
           run w (Needs tomcatDir ''sudo chmod -R 755''),
           run w (Needs tomcatDir ''sudo chmod -R +x bin/*.sh''),
           print (Log ''Creating Tomcat systemd service...''),
           run w (Tee serviceFilePath (UnitFile tv (''/opt/openjdk-'' @ jv) (''/opt/tomcat-'' @ tv))),
           run w (Needs serviceFilePath ''sudo chmod 644''),
           run w (Needs serviceFilePath ''sudo chown root:root''),
           ensureTomcatUserAndGroup w,
           run w (Needs tomcatDir ''sudo chown -R tomcat:tomcat''),
           run w (Needs tomcatDir ''sudo chmod -R 755''),
           run w (Needs tomcatDir ''sudo chmod -R +x bin/*.sh''),
           run w (Needs tomcatDir ''sudo bin/shutdown.sh''),
           run w (Needs tomcatDir ''sudo bin/startup.sh''),
           print (Log (''Tomcat '' @ tv @ '' upgraded successfully.'')),
           pruneOldServices w tv]))))))"

definition upgradeTomcat_try :: "world \<Rightarrow> string \<Rightarrow> string \<Rightarrow> string \<Rightarrow> unit proc" where
  "upgradeTomcat_try w tv turl jv =
      next_do (run w (Other ''sudo mkdir -p /opt/tomcat_backups''))
     (bind (runCommand w (Cmd (LsGrepHead Opt ''tomcat-''))) (\<lambda>existingTomcat.
      next_do (if existingTomcat \<noteq> []
               then seq [createBackup w (Opt, existingTomcat) (TomcatBackups, existingTomcat),
                         run w (RmRf (Opt, existingTomcat))]
               else ret ())
        (fetchTomcat w tv turl jv)))"

definition upgradeTomcat :: "world \<Rightarrow> string \<Rightarrow> string \<Rightarrow> string \<Rightarrow> unit proc" where
  "upgradeTomcat w tv turl jv =
     try_catch (upgradeTomcat_try w tv turl jv)
       (\<lambda>e. next_do (print (Err ''Tomcat upgrade failed'')) (throw e))"

text \<open>
  \<^verbatim>\<open>upgrade\<close>. The \<^verbatim>\<open>catch\<close> of the Java step ends the function with \<^verbatim>\<open>return\<close>
  (\<open>None\<close> below); the \<^verbatim>\<open>catch\<close> of the Tomcat step rolls back with the versions
  read at the start and throws again, into the outer \<^verbatim>\<open>catch\<close>, which prints.
\<close>

definition tomcatStep ::
  "world \<Rightarrow> config \<Rightarrow> bool \<Rightarrow> string option \<Rightarrow> string option \<Rightarrow> unit proc" where
  "tomcatStep w cfg javaUpgraded currentJavaVersion currentTomcatVersion =
     try_catch
       (seq [upgradeTomcat w (tomcatVersion cfg) (tomcatUrl cfg) (javaVersion cfg),
             run w (Other ''sudo systemctl daemon-reload''),
             print (Log ''Upgrade completed successfully.'')])
       (\<lambda>error.
          next_do (print (Err ''Tomcat upgrade failed. Rolling back...''))
         (next_do (if javaUpgraded
                   then next_do
                          (print (Log (''Rolling back Java '' @ javaVersion cfg @ '' to ''
                             @ show_version currentJavaVersion @ '' since Tomcat failed...'')))
                          (rollbackUpgrade w currentJavaVersion currentTomcatVersion)
                   else ret ())
            (throw error)))"

definition upgrade_try :: "world \<Rightarrow> unit proc" where
  "upgrade_try w =
     next_do (print (Log ''Starting upgrade process...''))
    (bind readUpgradeConfiguration (\<lambda>cfg.
     bind (getCurrentVersions w) (\<lambda>(currentJavaVersion, currentTomcatVersion).
     next_do (validateUpgradeConditions w (javaVersion cfg) (tomcatVersion cfg))
    (bind (try_catch
             (bind (upgradeJava w (javaVersion cfg) (javaUrl cfg)) (\<lambda>b. ret (Some b)))
             (\<lambda>e. next_do (print (Err ''Java upgrade failed. Aborting process.'')) (ret None)))
       (\<lambda>r. case r of
               None \<Rightarrow> ret ()
             | Some javaUpgraded \<Rightarrow>
                 tomcatStep w cfg javaUpgraded currentJavaVersion currentTomcatVersion)))))"

definition upgrade :: "world \<Rightarrow> unit proc" where
  "upgrade w = try_catch (upgrade_try w) (\<lambda>e. print (Err ''Upgrade process failed:''))"

section \<open>install.js\<close>

abbreviation dquote :: string where
  "dquote \<equiv> [CHR 0x22]"

text \<open>
  \<^verbatim>\<open>installJava\<close> runs one \<^verbatim>\<open>&&\<close> chain. The folder the archive unpacked to is read in
  the middle of the chain (\<^verbatim>\<open>extracted_folder=$(ls /opt | grep 'jdk' | head -n 1)\<close>).
  JAVA_HOME is written to \<^verbatim>\<open>/etc/environment\<close> with \<^verbatim>\<open>tee\<close>, which replaces the file,
  and to \<^verbatim>\<open>/etc/profile\<close> with \<^verbatim>\<open>tee -a\<close>, which appends to it.
\<close>

definition installJava_commands :: "world \<Rightarrow> string \<Rightarrow> string \<Rightarrow> string proc" where
  "installJava_commands w jv jurl =
     next_do (and_chain w
        [Other ''sudo dnf update'',
         Other ''sudo mkdir -p /opt'',
         Wget jurl (Tmp, ''java.tar.gz''),
         TarX (Tmp, ''java.tar.gz'') Opt])
    (bind (sh w (LsGrepHead Opt ''jdk'')) (\<lambda>extracted_folder.
      and_chain w
        [RmRf (Opt, ''openjdk-'' @ jv),
         Mv (Opt, extracted_folder) (Opt, ''openjdk-'' @ jv),
         RmRf (Tmp, ''java.tar.gz''),
         TeeOverwrite EtcEnvironment (''JAVA_HOME='' @ dquote @ ''/opt/openjdk-'' @ jv @ dquote),
         TeeAppend EtcProfile (''export JAVA_HOME='' @ dquote @ ''/opt/openjdk-'' @ jv @ dquote),
         TeeAppend EtcProfile (''export PATH='' @ dquote @ ''$JAVA_HOME/bin:$PATH'' @ dquote),
         Source EtcProfile]))"

definition installJava :: "world \<Rightarrow> string \<Rightarrow> string \<Rightarrow> string proc" where
  "installJava w jv jurl =
     next_do (print (Log (''Installing Java '' @ jv @ '' from '' @ jurl @ ''...'')))
       (try_catch
          (bind (installJava_commands w jv jurl) (\<lambda>stdout.
             next_do (print (Log (''Java '' @ jv @ '' installed successfully.''))) (ret stdout)))
          (\<lambda>e. next_do (print (Err ''Java installation failed:'')) (throw e)))"

text \<open>
  \<^verbatim>\<open>fs.writeFileSync\<close>, \<^verbatim>\<open>fs.chmodSync\<close> and \<^verbatim>\<open>fs.chownSync\<close> throw when they fail.
\<close>

definition fs_call :: "world \<Rightarrow> fsop \<Rightarrow> (host \<Rightarrow> host) \<Rightarrow> unit proc" where
  "fs_call w op f s = (if fs_fails w op s then (Throw (FsError op), s) else (Return (), f s))"

text \<open>
  \<^verbatim>\<open>installTomcat\<close> starts the script that creates the user and the group without
  waiting for it. The callback of that script only prints; it runs before the
  callback of the main line, or between two of the callbacks that follow, or after
  the promise of \<^verbatim>\<open>installTomcat\<close> has settled.
\<close>

definition ensureTomcatUser_started :: "unit proc" where
  "ensureTomcatUser_started s = (Return (), s\<lparr>awaiting_user_setup := True\<rparr>)"

definition ensureTomcatUser_callback :: "world \<Rightarrow> unit proc" where
  "ensureTomcatUser_callback w =
     try_catch
       (next_do (exec w (Lines [OrTrue (Other ''sudo groupadd --system tomcat''),
                                OrTrue (Other ''sudo useradd -s /bin/false -g tomcat tomcat'')]))
          (print (Log ''Tomcat user and group ensured.'')))
       (\<lambda>e. print (Err ''Failed to create tomcat user:''))"

definition ensureTomcatUser_at :: "world \<Rightarrow> nat \<Rightarrow> unit proc" where
  "ensureTomcatUser_at w k s =
     (if awaiting_user_setup s \<and> user_setup_done_after w = k
      then ensureTomcatUser_callback w (s\<lparr>awaiting_user_setup := False\<rparr>)
      else (Return (), s))"

definition ensureTomcatUser_late :: "world \<Rightarrow> unit proc" where
  "ensureTomcatUser_late w s =
     (if awaiting_user_setup s
      then ensureTomcatUser_callback w (s\<lparr>awaiting_user_setup := False\<rparr>)
      else (Return (), s))"

text \<open>
  The main line joins its commands with \<^verbatim>\<open>&&\<close>, with the \<^verbatim>\<open>|| true\<close> of the \<^verbatim>\<open>adduser\<close>
  command in the middle. When the line has worked, the unit file is written unless
  it exists; an exception of \<^verbatim>\<open>writeFileSync\<close> inside that callback is caught by
  nobody and ends the process with status 1.
\<close>

definition installTomcat :: "world \<Rightarrow> string \<Rightarrow> string \<Rightarrow> string \<Rightarrow> unit proc" where
  "installTomcat w jv tv turl =
     (let tomcatDir = (Opt, ''tomcat-'' @ tv);
          serviceFilePath = unit_file (''tomcat-'' @ tv);
          tempTarFile = (Tmp, ''tomcat-'' @ tv @ ''.tar.gz'')
      in
      next_do (print (Log (''Installing Apache Tomcat '' @ tv @ '' from '' @ turl @ ''...'')))
     (next_do ensureTomcatUser_started
     (next_do (ensureTomcatUser_at w 0)
     (next_do (try_catch
                 (next_do (exec w (AndOrList
                    [AndThen (Other ''sudo dnf update''),
                     AndThen (Other ''sudo dnf install -y wget''),
                     AndThen (MkdirP tomcatDir),
                     AndThen (Wget turl tempTarFile),
                     AndThen (TarXStrip tempTarFile tomcatDir),
                     AndThen (RmRf tempTarFile),
                     AndThen (Other ''sudo adduser --system --no-create-home --group tomcat''),
                     OrElseTrue,
                     AndThen (Needs tomcatDir ''sudo chown -R tomcat:tomcat''),
                     AndThen (Needs tomcatDir ''sudo chmod -R 755''),
                     AndThen (Needs tomcatDir ''sudo chmod -R +x bin/*.sh'')])) (ret ()))
                 (\<lambda>e. throw (Rejected ''Tomcat installation failed'')))
     (next_do (print (Log (''Apache Tomcat '' @ tv @ '' installed successfully'')))
     (next_do (\<lambda>s. if \<not> existsSync serviceFilePath s
                    then seq [print (Warn ''Tomcat service file not found. Creating a new one...''),
                              try_catch
                                (fs_call w WriteFile
                                   (put serviceFilePath
                                      (UnitFile tv (''/opt/openjdk-'' @ jv) (''/opt/tomcat-'' @ tv))))
                                (\<lambda>e. process_exit 1),
                              print (Log ''Created new Tomcat service file'')] s
                    else print (Log ''Tomcat service file already exists.'') s)
     (next_do (ensureTomcatUser_at w 1)
     (next_do (try_catch
                 (next_do (exec w (Cmd (Needs serviceFilePath ''sudo chmod 644''))) (ret ()))
                 (\<lambda>e. throw (Rejected ''Failed to set correct permissions for Tomcat service file.'')))
     (next_do (print (Log ''Permissions set successfully for Tomcat service file.''))
     (next_do (ensureTomcatUser_at w 2)
     (next_do (try_catch
                 (next_do (exec w (Cmd (ServiceRestartOr (''tomcat-'' @ tv)))) (ret ()))
                 (\<lambda>e. next_do (print (Err ''Tomcat restart failed:''))
                         (throw (Rejected ''Tomcat restart failed''))))
        (print (Log ''Tomcat restarted successfully'')))))))))))))"

definition createPreviousVersionsFile :: "world \<Rightarrow> string \<Rightarrow> string \<Rightarrow> unit proc" where
  "createPreviousVersionsFile w jv tv =
     try_catch
       (seq [fs_call w WriteFile (\<lambda>s. s\<lparr>previous_versions := Some (jv, tv)\<rparr>),
             print (Log ''previous_versions.json created/updated successfully.''),
             fs_call w ChmodFile (\<lambda>s. s),
             print (Log ''Set permissions to 755 (rwxr-xr-x)''),
             (case env_USER w of
                Some currentUser \<Rightarrow>
                  next_do (fs_call w ChownFile (\<lambda>s. s))
                    (print (Log (''Changed file ownership to '' @ currentUser)))
              | None \<Rightarrow>
                  print (Warn ''Unable to determine the current user. Ownership not changed.''))])
       (\<lambda>e. print (Err ''Error creating/updating previous_versions.json:''))"

text \<open>
  \<^verbatim>\<open>install\<close> takes the versions and URLs from the install descriptor, read when
  the module is loaded.
\<close>

definition install :: "world \<Rightarrow> config \<Rightarrow> unit proc" where
  "install w cfg =
     try_catch
       (seq [next_do (installJava w (javaVersion cfg) (javaUrl cfg)) (ret ()),
             installTomcat w (javaVersion cfg) (tomcatVersion cfg) (tomcatUrl cfg),
             createPreviousVersionsFile w (javaVersion cfg) (tomcatVersion cfg),
             print (Log ''Installation and previous_versions.json update complete.'')])
       (\<lambda>e. print (Err ''Installation process failed:''))"

section \<open>rollback.js\<close>

text \<open>
  \<^verbatim>\<open>rollbackJava\<close> restores the backup that \<^verbatim>\<open>sort -V | tail -n 1\<close> names. With no
  backup it prints an error and returns. The body of the \<^verbatim>\<open>try\<close> block of a function
  \<open>f\<close> is the definition \<open>f_try\<close>; \<open>f\<close> puts the \<^verbatim>\<open>catch\<close> around it.
\<close>

definition rollbackJava_try :: "world \<Rightarrow> unit proc" where
  "rollbackJava_try w =
       (bind (runCommand w (Cmd (LsGrepSortTail JavaBackups ''openjdk-''))) (\<lambda>latestJavaBackup.
          if latestJavaBackup = [] then print (Err ''No Java backup found for rollback.'')
          else seq
            [print (Log (''Rolling back to Java from backup: '' @ latestJavaBackup @ ''...'')),
             print (Log ''Removing all Java versions from /opt/...''),
             run w (RmRfGlob Opt ''openjdk-''),
             print (Log (''Restoring Java from backup: '' @ latestJavaBackup @ ''...'')),
             run w (CpR (JavaBackups, latestJavaBackup) (Opt, latestJavaBackup)),
             print (Log ''Setting JAVA_HOME...''),
             next_do (runCommand w (AndChain
                [SedDel EtcEnvironment (StartsWith ''JAVA_HOME=''),
                 TeeAppend EtcEnvironment
                   (''JAVA_HOME='' @ dquote @ ''/opt/'' @ latestJavaBackup @ dquote),
                 Source EtcEnvironment])) (ret ()),
             print (Log (''Java rollback to '' @ latestJavaBackup @ '' completed successfully.''))]))"

definition rollbackJava :: "world \<Rightarrow> unit proc" where
  "rollbackJava w = try_catch (rollbackJava_try w) (\<lambda>e. print (Err ''Java rollback failed:''))"

definition rollbackTomcat_try :: "world \<Rightarrow> unit proc" where
  "rollbackTomcat_try w =
       (bind (runCommand w (Cmd (LsGrepSortTail TomcatBackups ''tomcat-''))) (\<lambda>latestTomcatBackup.
          if latestTomcatBackup = [] then print (Err ''No Tomcat backup found for rollback.'')
          else
            let tomcatVersion = remove_first ''tomcat-'' latestTomcatBackup;
                serviceFilePath = unit_file (''tomcat-'' @ tomcatVersion)
            in seq
            [print (Log (''Rolling back to Tomcat from backup: '' @ latestTomcatBackup @ ''...'')),
             print (Log ''Stopping all Tomcat services...''),
             run w (OrTrue (StopUnits ''tomcat'')),
             run w (OrTrue (DisableUnits ''tomcat'')),
             print (Log ''Removing all Tomcat versions from /opt/...''),
             run w (RmRfGlob Opt ''tomcat-''),
             print (Log (''Restoring Tomcat from backup: '' @ latestTomcatBackup @ ''...'')),
             run w (CpR (TomcatBackups, latestTomcatBackup) (Opt, latestTomcatBackup)),
             print (Log ''Setting Tomcat user permissions...''),
             run w (Needs (Opt, latestTomcatBackup) ''sudo chown -R tomcat:tomcat''),
             run w (Needs (Opt, latestTomcatBackup) ''sudo chmod -R 755''),
             run w (Needs (Opt, latestTomcatBackup) ''sudo chmod -R +x bin/*.sh''),
             print (Log ''Restoring Tomcat systemd service...''),
             bind (runCommand w (Cmd EchoJavaHome)) (\<lambda>javaHome.
               run w (Tee serviceFilePath
                 (UnitFile tomcatVersion javaHome (''/opt/'' @ latestTomcatBackup)))),
             run w (Needs serviceFilePath ''sudo chmod 644''),
             print (Log ''Reloading systemd and starting Tomcat...''),
             run w (Other ''sudo systemctl daemon-reload''),
             run w (Enable (''tomcat-'' @ tomcatVersion)),
             run w (Restart (''tomcat-'' @ tomcatVersion)),
             print (Log (''Tomcat rollback to '' @ latestTomcatBackup
                          @ '' completed successfully.''))]))"

definition rollbackTomcat :: "world \<Rightarrow> unit proc" where
  "rollbackTomcat w =
     try_catch (rollbackTomcat_try w) (\<lambda>e. print (Err ''Tomcat rollback failed:''))"

definition rollback :: "world \<Rightarrow> unit proc" where
  "rollback w =
     try_catch
       (seq [print (Log ''Starting rollback process...''),
             rollbackJava w,
             rollbackTomcat w,
             print (Log ''Rollback process completed successfully.'')])
       (\<lambda>e. print (Err ''Rollback failed:''))"

section \<open>The command line\<close>

text \<open>
  \<^verbatim>\<open>safeAction\<close> exits with status 1 when the action rejects. A handler that
  returns lets the process end with status 0; a rejection nobody handles ends it
  with status 1.
\<close>

definition safeAction :: "unit proc \<Rightarrow> string \<Rightarrow> unit proc" where
  "safeAction action actionName =
     try_catch
       (seq [print (Log (''Starting '' @ actionName @ ''...'')),
             action,
             print (Log (actionName @ '' completed successfully!''))])
       (\<lambda>e. next_do (print (Err (actionName @ '' failed:''))) (process_exit 1))"

fun exit_status :: "unit outcome \<Rightarrow> nat" where
  "exit_status (Return u) = 0"
| "exit_status (Throw e) = 1"
| "exit_status (Exit n) = n"

text \<open>
  The \<^verbatim>\<open>upgrade\<close> command exits with status 0 after \<^verbatim>\<open>upgrade\<close> has returned and with
  status 1 when it rejects.
\<close>

definition cli_upgrade :: "world \<Rightarrow> unit proc" where
  "cli_upgrade w =
     next_do (print (Log ''Starting upgrade process...''))
       (try_catch
          (seq [upgrade w, print (Log ''Upgrade completed successfully!''), process_exit 0])
          (\<lambda>e. next_do (print (Err ''Upgrade failed:'')) (process_exit 1)))"

text \<open>
  The version of a component that \<^verbatim>\<open>getCurrentVersions\<close> reads when its listing
  command works: the first entry of \<^verbatim>\<open>/opt\<close> that contains the prefix, with the first
  occurrence of the prefix deleted.
\<close>

definition current_version :: "string \<Rightarrow> host \<Rightarrow> string" where
  "current_version pre s =
     trim (head1 (map (remove_first pre) (filter (contains pre) (ls Opt s))))"

text \<open>
  The name of the installed directory of a component as \<^verbatim>\<open>upgradeJava\<close> and
  \<^verbatim>\<open>upgradeTomcat\<close> read it (\<^verbatim>\<open>ls /opt | grep 'openjdk-' | head -n 1\<close>).
\<close>

definition existing :: "string \<Rightarrow> host \<Rightarrow> string" where
  "existing pre s = trim (head1 (filter (contains pre) (ls Opt s)))"

text \<open>
  After the \<^verbatim>\<open>install\<close> command has printed its last message the process stays
  until the command started on the side has reported.
\<close>

definition cli_install :: "world \<Rightarrow> config \<Rightarrow> unit proc" where
  "cli_install w cfg =
     next_do (safeAction (install w cfg) ''Installation'') (ensureTomcatUser_late w)"

definition cli_rollback :: "world \<Rightarrow> unit proc" where
  "cli_rollback w = safeAction (rollback w) ''Rollback''"

text \<open>
  What is installed under \<^verbatim>\<open>/opt\<close> for a component: the entries whose name starts
  with the component's prefix (the entries \<^verbatim>\<open>rm -rf /opt/openjdk-*\<close> removes), with
  what they hold.
\<close>

definition installed :: "string \<Rightarrow> host \<Rightarrow> (string \<times> payload) list" where
  "installed pre s =
     map (\<lambda>e. (snd (fst e), snd e))
       (filter (\<lambda>e. fst (fst e) = Opt \<and> starts_with pre (snd (fst e))) (files s))"

definition cli_uninstall :: "world \<Rightarrow> unit proc" where
  "cli_uninstall w =
     safeAction (seq [uninstallJava w, uninstallTomcat w, removePreviousVersionsFile w])
       ''Uninstallation''"

section \<open>Observations that a procedure keeps\<close>

text \<open>
  Used in the proofs only: a procedure preserves an observation \<open>f\<close> of the host
  when \<open>f\<close> has the same value after every run; an observation is quiet when it
  does not depend on the console; \<open>touches c p\<close> says that the command \<open>c\<close> may
  create, change or remove the entry at path \<open>p\<close>, \<open>forgets c\<close> that it may remove
  \<^verbatim>\<open>previous_versions.json\<close>, and \<open>edits c f\<close> that it may change the lines of the
  file \<open>f\<close>.
\<close>

definition preserves :: "(host \<Rightarrow> 'v) \<Rightarrow> 'a proc \<Rightarrow> bool" where
  "preserves f m = (\<forall>s. f (snd (m s)) = f s)"

definition quiet :: "(host \<Rightarrow> 'v) \<Rightarrow> bool" where
  "quiet f = (\<forall>s c. f (s\<lparr>console := c\<rparr>) = f s)"

fun touches :: "cmd \<Rightarrow> path \<Rightarrow> bool" where
  "touches (RmRf q) p = (p = q)"
| "touches (RmRfGlob d pre) p = (fst p = d \<and> starts_with pre (snd p))"
| "touches (RmRfDir d) p = (fst p = d)"
| "touches (RmGlob d pre suf) p = (fst p = d \<and> starts_with pre (snd p))"
| "touches (CpR src dst) p = (p = dst)"
| "touches (Mv src dst) p = (p = src \<or> p = dst)"
| "touches (MkdirP q) p = (p = q)"
| "touches (Wget u q) p = (p = q)"
| "touches (TarX f d) p = (fst p = d)"
| "touches (TarXStrip f q) p = (p = q)"
| "touches (Tee q x) p = (p = q)"
| "touches (OrTrue c) p = touches c p"
| "touches c p = False"

definition keeps :: "(host \<Rightarrow> 'v) \<Rightarrow> world \<Rightarrow> cmd \<Rightarrow> bool" where
  "keeps f w c = (\<forall>s out s'. effect w c s = Some (out, s') \<longrightarrow> f s' = f s)"

fun forgets :: "cmd \<Rightarrow> bool" where
  "forgets RmPreviousVersions = True"
| "forgets (OrTrue c) = forgets c"
| "forgets c = False"

fun edits :: "cmd \<Rightarrow> textfile \<Rightarrow> bool" where
  "edits (SedDel f pt) g = (g = f)"
| "edits (TeeAppend f l) g = (g = f)"
| "edits (TeeOverwrite f l) g = (g = f)"
| "edits (OrTrue c) g = edits c g"
| "edits c g = False"

section \<open>Example hosts\<close>

text \<open>
  A world in which no command fails, and a host with Java 17 and Tomcat 9.0.98
  installed whose upgrade descriptor asks for Java 21 and Tomcat 10.1.34.
\<close>

definition world_ok :: world where
  "world_ok =
     \<lparr>fails = (\<lambda>c s. False),
      archive_root = (\<lambda>u. if contains ''jdk'' u then ''jdk-21.0.2'' else ''apache-tomcat-10.1.34''),
      version_le = name_le,
      env_JAVA_HOME = ''/opt/openjdk-17'',
      env_USER = Some ''root'',
      fs_fails = (\<lambda>c s. False),
      user_setup_done_after = 0\<rparr>"

definition desired21 :: config where
  "desired21 =
     \<lparr>javaVersion = ''21'', javaUrl = ''https://dl/jdk-21.tar.gz'',
      tomcatVersion = ''10.1.34'', tomcatUrl = ''https://dl/tomcat-10.tar.gz''\<rparr>"

definition host17 :: host where
  "host17 =
     \<lparr>files = [((Opt, ''openjdk-17''), Tree ''jdk-17''),
               ((Opt, ''tomcat-9.0.98''), Tree ''tomcat-9''),
               ((Systemd, ''tomcat-9.0.98.service''),
                  UnitFile ''9.0.98'' ''/opt/openjdk-17'' ''/opt/tomcat-9.0.98'')],
      upgrade_config = Some desired21,
      text_of = (\<lambda>f. case f of
          EtcEnvironment \<Rightarrow> Some [''JAVA_HOME=/opt/openjdk-17'']
        | EtcProfile \<Rightarrow> Some [''export JAVA_HOME=/opt/openjdk-17'',
                               ''export PATH=$JAVA_HOME/bin:$PATH'']
        | Bashrc \<Rightarrow> Some []
        | BashProfile \<Rightarrow> Some []
        | Zshrc \<Rightarrow> None),
      enabled = [],
      active = [''tomcat-9.0.98''],
      previous_versions = Some (''17'', ''9.0.98''),
      console = [],
      awaiting_user_setup = False\<rparr>"

text \<open>The host after that upgrade: Java 21 and Tomcat 10.1.34, with the backups of 17 and 9.0.98.\<close>

definition host21 :: host where
  "host21 =
     \<lparr>files = [((Opt, ''openjdk-21''), Tree ''https://dl/jdk-21.tar.gz''),
               ((Opt, ''tomcat-10.1.34''), Tree ''https://dl/tomcat-10.tar.gz''),
               ((Systemd, ''tomcat-10.1.34.service''),
                  UnitFile ''10.1.34'' ''/opt/openjdk-21'' ''/opt/tomcat-10.1.34''),
               ((JavaBackups, ''openjdk-17''), Tree ''jdk-17''),
               ((TomcatBackups, ''tomcat-9.0.98''), Tree ''tomcat-9'')],
      upgrade_config = Some desired21,
      text_of = (\<lambda>f. case f of
          EtcEnvironment \<Rightarrow> Some [''JAVA_HOME=/opt/openjdk-21'']
        | EtcProfile \<Rightarrow> Some [''export JAVA_HOME=/opt/openjdk-21'',
                               ''export PATH=$JAVA_HOME/bin:$PATH'']
        | Bashrc \<Rightarrow> Some []
        | BashProfile \<Rightarrow> Some []
        | Zshrc \<Rightarrow> None),
      enabled = [],
      active = [''tomcat-9.0.98''],
      previous_versions = Some (''17'', ''9.0.98''),
      console = [],
      awaiting_user_setup = False\<rparr>"

text \<open>\<open>host17\<close> with another desired state in its upgrade descriptor.\<close>

definition host17_wants :: "string \<Rightarrow> string \<Rightarrow> host" where
  "host17_wants jv tv =
     host17\<lparr>upgrade_config := Some (desired21\<lparr>javaVersion := jv, tomcatVersion := tv\<rparr>)\<rparr>"

text \<open>A host on which nothing is installed yet.\<close>

definition host_fresh :: host where
  "host_fresh =
     \<lparr>files = [],
      upgrade_config = None,
      text_of = (\<lambda>f. case f of
          EtcEnvironment \<Rightarrow> Some []
        | EtcProfile \<Rightarrow> Some []
        | Bashrc \<Rightarrow> Some []
        | BashProfile \<Rightarrow> Some []
        | Zshrc \<Rightarrow> None),
      enabled = [],
      active = [],
      previous_versions = None,
      console = [],
      awaiting_user_setup = False\<rparr>"

text \<open>The same world, except that downloading from one URL fails.\<close>

definition world_no_download :: "string \<Rightarrow> world" where
  "world_no_download url =
     world_ok\<lparr>fails := (\<lambda>c s. case c of Wget u p \<Rightarrow> u = url | _ \<Rightarrow> False)\<rparr>"

text \<open>
  A world in which the download of the Tomcat archive fails and, later, copying
  anything out of the Java backup directory fails as well.
\<close>

definition world_no_restore :: world where
  "world_no_restore =
     world_ok\<lparr>fails := (\<lambda>c s. case c of
         Wget u p \<Rightarrow> u = tomcatUrl desired21
       | CpR src dst \<Rightarrow> fst src = JavaBackups
       | _ \<Rightarrow> False)\<rparr>"

section \<open>Facts about the control operators\<close>

lemma bind_Return: "m s = (Return a, s') \<Longrightarrow> bind m f s = f a s'"
  by (simp add: bind_def)

lemma bind_Throw: "m s = (Throw e, s') \<Longrightarrow> bind m f s = (Throw e, s')"
  by (simp add: bind_def)

lemma bind_Exit: "m s = (Exit n, s') \<Longrightarrow> bind m f s = (Exit n, s')"
  by (simp add: bind_def)

lemma sh_no_exit: "fst (sh w c s) \<noteq> Exit n"
  by (simp add: sh_def split: option.splits prod.splits)

lemma next_do_no_exit:
  assumes "\<And>s. fst (m s) \<noteq> Exit n" and "\<And>s. fst (k s) \<noteq> Exit n"
  shows "fst (next_do m k s) \<noteq> Exit n"
proof (cases "m s")
  case (Pair r s')
  with assms(1) [of s] assms(2) [of s'] show ?thesis
    by (cases r) (simp_all add: next_do_def bind_def)
qed

lemma bind_no_exit:
  assumes "\<And>s. fst (m s) \<noteq> Exit n" and "\<And>a s. fst (k a s) \<noteq> Exit n"
  shows "fst (bind m k s) \<noteq> Exit n"
proof (cases "m s")
  case (Pair r s')
  with assms(1) [of s] assms(2) [of _ s'] show ?thesis
    by (cases r) (simp_all add: bind_def)
qed

lemma try_catch_no_exit:
  assumes "\<And>s. fst (m s) \<noteq> Exit n" and "\<And>e s. fst (h e s) \<noteq> Exit n"
  shows "fst (try_catch m h s) \<noteq> Exit n"
proof (cases "m s")
  case (Pair r s')
  with assms(1) [of s] assms(2) [of _ s'] show ?thesis
    by (cases r) (simp_all add: try_catch_def)
qed

lemma ret_no_exit: "fst (ret a s) \<noteq> Exit n"
  by (simp add: ret_def)

lemma throw_no_exit: "fst (throw e s) \<noteq> Exit n"
  by (simp add: throw_def)

lemma print_no_exit: "fst (print a s) \<noteq> Exit n"
  by (simp add: print_def)

lemma and_chain_no_exit: "fst (and_chain w cs s) \<noteq> Exit n"
  by (induction w cs arbitrary: s rule: and_chain.induct)
     (simp_all add: ret_no_exit sh_no_exit next_do_no_exit)

lemma script_lines_no_exit: "fst (script_lines w cs s) \<noteq> Exit n"
  by (induction w cs arbitrary: s rule: script_lines.induct)
     (simp_all add: ret_no_exit sh_no_exit next_do_no_exit try_catch_no_exit)

lemma and_or_list_no_exit: "fst (and_or_list w sts status out s) \<noteq> Exit n"
proof (induction w sts status out s rule: and_or_list.induct)
  case (3 w c r out s)
  then show ?case
    using sh_no_exit [of w c s] by (cases "sh w c s") (auto split: outcome.splits)
qed simp_all

lemma exec_no_exit: "fst (exec w c s) \<noteq> Exit n"
  by (cases c)
     (simp_all add: sh_no_exit and_chain_no_exit script_lines_no_exit and_or_list_no_exit)

lemma runCommand_no_exit: "fst (runCommand w c s) \<noteq> Exit n"
  unfolding runCommand_def
  by (intro try_catch_no_exit bind_no_exit next_do_no_exit exec_no_exit ret_no_exit
        print_no_exit throw_no_exit)

lemma run_no_exit: "fst (run w c s) \<noteq> Exit n"
  unfolding run_def by (intro next_do_no_exit runCommand_no_exit ret_no_exit)

lemma runCommand_u_no_exit: "fst (runCommand_u w c s) \<noteq> Exit n"
  unfolding runCommand_u_def
  by (intro try_catch_no_exit bind_no_exit next_do_no_exit exec_no_exit ret_no_exit
        print_no_exit throw_no_exit)

lemma run_u_no_exit: "fst (run_u w c s) \<noteq> Exit n"
  unfolding run_u_def by (intro next_do_no_exit runCommand_u_no_exit ret_no_exit)

lemma seq_no_exit:
  assumes "\<And>m s. m \<in> set ms \<Longrightarrow> fst (m s) \<noteq> Exit n"
  shows "fst (seq ms s) \<noteq> Exit n"
  using assms
proof (induction ms arbitrary: s)
  case Nil
  show ?case by (simp add: ret_no_exit)
next
  case (Cons m ms)
  show ?case
    unfolding seq.simps
    by (rule next_do_no_exit) (simp_all add: Cons)
qed

text \<open>
  A \<^verbatim>\<open>try\<close> block whose \<^verbatim>\<open>catch\<close> only prints: if the body cannot end the process,
  the whole statement returns.
\<close>

lemma caught_and_printed:
  assumes "\<And>s n. fst (m s) \<noteq> Exit n"
  shows "fst (try_catch (next_do m (print a)) (\<lambda>e. print b) s) = Return ()"
proof (cases "m s")
  case (Pair r s')
  with assms [of s] show ?thesis
    by (cases r) (auto simp: try_catch_def next_do_def bind_def print_def)
qed

lemma next_do_returns:
  assumes "\<And>s. fst (m s) = Return ()" and "\<And>s. fst (k s) = Return ()"
  shows "fst (next_do m k s) = Return ()"
proof (cases "m s")
  case (Pair r s')
  with assms(1) [of s] assms(2) [of s'] show ?thesis
    by (simp add: next_do_def bind_def)
qed

lemma print_returns: "fst (print a s) = Return ()"
  by (simp add: print_def)

lemma uninstallJava_returns: "fst (uninstallJava w s) = Return ()"
  unfolding uninstallJava_def
  by (intro next_do_returns print_returns caught_and_printed runCommand_u_no_exit)

lemma uninstallTomcat_returns: "fst (uninstallTomcat w s) = Return ()"
  unfolding uninstallTomcat_def
  by (intro next_do_returns print_returns caught_and_printed seq_no_exit)
     (auto simp: run_u_no_exit)

lemma fullUninstall_returns: "fst (fullUninstall w s) = Return ()"
  unfolding fullUninstall_def seq.simps
  by (intro next_do_returns print_returns uninstallJava_returns uninstallTomcat_returns)
     (simp add: ret_def)

lemma caught_returns:
  fixes m :: "unit proc"
  assumes "\<And>s n. fst (m s) \<noteq> Exit n"
  shows "fst (try_catch m (\<lambda>e. print b) s) = Return ()"
proof (cases "m s")
  case (Pair r s')
  with assms [of s] show ?thesis
    by (cases r) (auto simp: try_catch_def print_def)
qed

lemma removePreviousVersionsFile_returns: "fst (removePreviousVersionsFile w s) = Return ()"
  unfolding removePreviousVersionsFile_def
proof (rule caught_returns)
  fix s n
  have u: "fst (unlinkSync_previous_versions w t) \<noteq> Exit n" for t
    by (simp add: unlinkSync_previous_versions_def)
  have "fst (seq
              [print (Log ''Removing previous_versions.json...''),
               (case env_USER w of
                  Some u \<Rightarrow> next_do (run_u w (Other ''sudo chown previous_versions.json''))
                             (print (Log ''Changed ownership of previous_versions.json''))
                | None \<Rightarrow> print (Warn ''Unable to determine current user. Proceeding with sudo...'')),
               run_u w (Other ''sudo chmod 777 previous_versions.json''),
               print (Log ''Changed file permissions to 777 (read/write for all users).''),
               try_catch (unlinkSync_previous_versions w) (\<lambda>e. run_u w RmPreviousVersions)] s) \<noteq> Exit n"
  proof (rule seq_no_exit)
    fix m :: "unit proc" and t
    assume "m \<in> set [print (Log ''Removing previous_versions.json...''),
               (case env_USER w of
                  Some u \<Rightarrow> next_do (run_u w (Other ''sudo chown previous_versions.json''))
                             (print (Log ''Changed ownership of previous_versions.json''))
                | None \<Rightarrow> print (Warn ''Unable to determine current user. Proceeding with sudo...'')),
               run_u w (Other ''sudo chmod 777 previous_versions.json''),
               print (Log ''Changed file permissions to 777 (read/write for all users).''),
               try_catch (unlinkSync_previous_versions w) (\<lambda>e. run_u w RmPreviousVersions)]"
    moreover have "fst (next_do (run_u w c) (print a) t) \<noteq> Exit n" for c a
      by (intro next_do_no_exit run_u_no_exit print_no_exit)
    moreover have "fst (try_catch (unlinkSync_previous_versions w) (\<lambda>e. run_u w c) t) \<noteq> Exit n"
      for c
      by (intro try_catch_no_exit u run_u_no_exit)
    ultimately show "fst (m t) \<noteq> Exit n"
      by (cases "env_USER w") (auto simp: run_u_no_exit print_no_exit)
  qed
  then show "fst ((if previous_versions s \<noteq> None
            then seq
              [print (Log ''Removing previous_versions.json...''),
               (case env_USER w of
                  Some u \<Rightarrow> next_do (run_u w (Other ''sudo chown previous_versions.json''))
                             (print (Log ''Changed ownership of previous_versions.json''))
                | None \<Rightarrow> print (Warn ''Unable to determine current user. Proceeding with sudo...'')),
               run_u w (Other ''sudo chmod 777 previous_versions.json''),
               print (Log ''Changed file permissions to 777 (read/write for all users).''),
               try_catch (unlinkSync_previous_versions w) (\<lambda>e. run_u w RmPreviousVersions)] s
            else ret () s)) \<noteq> Exit n"
    by (simp add: ret_def)
qed

lemma seq_returns:
  assumes "\<And>m s. m \<in> set ms \<Longrightarrow> fst (m s) = Return ()"
  shows "fst (seq ms s) = Return ()"
  using assms
proof (induction ms arbitrary: s)
  case Nil
  show ?case by (simp add: ret_def)
next
  case (Cons m ms)
  show ?case
    unfolding seq.simps
    by (rule next_do_returns) (simp_all add: Cons)
qed

lemma safeAction_of_returning:
  assumes "\<And>s. fst (action s) = Return ()"
  shows "fst (safeAction action name s) = Return () \<and>
         last (console (snd (safeAction action name s))) = Log (name @ '' completed successfully!'')"
proof -
  let ?s0 = "s\<lparr>console := console s @ [Log (''Starting '' @ name @ ''...'')]\<rparr>"
  obtain s1 where a: "action ?s0 = (Return (), s1)"
    using assms [of ?s0] by (cases "action ?s0") simp
  show ?thesis using a
    by (simp add: safeAction_def try_catch_def next_do_def bind_def print_def ret_def)
qed

section \<open>Facts about the host operations\<close>

lemmas ctl = bind_def next_do_def try_catch_def ret_def throw_def print_def process_exit_def






text \<open>Inversion: what a returning composition says about its parts.\<close>

lemma bind_Return_iff:
  "bind m f s = (Return b, s') \<longleftrightarrow> (\<exists>a s1. m s = (Return a, s1) \<and> f a s1 = (Return b, s'))"
  by (cases "m s") (auto simp: bind_def split: outcome.splits)

lemma next_do_Return_iff:
  "next_do m k s = (Return b, s') \<longleftrightarrow> (\<exists>a s1. m s = (Return a, s1) \<and> k s1 = (Return b, s'))"
  by (simp add: next_do_def bind_Return_iff)

lemma print_Return_iff:
  "print a s = (Return u, s') \<longleftrightarrow> s' = s\<lparr>console := console s @ [a]\<rparr>"
  by (auto simp: print_def)

lemma ret_Return_iff: "ret a s = (Return b, s') \<longleftrightarrow> a = b \<and> s' = s"
  by (auto simp: ret_def)

lemma sh_Return_iff:
  "sh w c s = (Return out, s') \<longleftrightarrow> \<not> fails w c s \<and> effect w c s = Some (out, s')"
  by (auto simp: sh_def split: option.splits)

lemma runCommand_Return_iff:
  "runCommand w c s = (Return out, s') \<longleftrightarrow> (\<exists>x. exec w c s = (Return x, s') \<and> out = trim x)"
  by (cases "exec w c s")
     (auto simp: runCommand_def try_catch_def bind_def next_do_def ret_def print_def throw_def
           split: outcome.splits)

lemma run_Return_iff:
  "run w c s = (Return u, s') \<longleftrightarrow> \<not> fails w c s \<and> (\<exists>x. effect w c s = Some (x, s'))"
  by (auto simp: run_def next_do_Return_iff runCommand_Return_iff sh_Return_iff ret_Return_iff)

lemmas returns = bind_Return_iff next_do_Return_iff print_Return_iff ret_Return_iff
  sh_Return_iff runCommand_Return_iff run_Return_iff

lemma if_no_exit:
  "(b \<Longrightarrow> fst (x s) \<noteq> Exit n) \<Longrightarrow> (\<not> b \<Longrightarrow> fst (y s) \<noteq> Exit n)
   \<Longrightarrow> fst ((if b then x else y) s) \<noteq> Exit n"
  by simp

lemmas no_exit = next_do_no_exit bind_no_exit try_catch_no_exit if_no_exit ret_no_exit
  throw_no_exit print_no_exit runCommand_no_exit run_no_exit

lemma rollbackJava_try_no_exit: "fst (rollbackJava_try w s) \<noteq> Exit n"
  unfolding rollbackJava_try_def seq.simps by (intro no_exit)

lemma rollbackTomcat_try_no_exit: "fst (rollbackTomcat_try w s) \<noteq> Exit n"
  unfolding rollbackTomcat_try_def seq.simps Let_def by (intro no_exit)

lemma catch_print_success:
  fixes m :: "unit proc"
  assumes "last (console (snd (try_catch m (\<lambda>e. print (Err t)) s))) = Log x"
    and "\<And>s n. fst (m s) \<noteq> Exit n"
  shows "\<exists>s'. m s = (Return (), s') \<and> try_catch m (\<lambda>e. print (Err t)) s = (Return (), s')"
proof (cases "m s")
  case (Pair r s')
  with assms(1) assms(2) [of s] show ?thesis
    by (cases r) (auto simp: try_catch_def print_def)
qed


lemma map_of_filter_fst:
  "map_of (filter (\<lambda>e. \<not> P (fst e)) xs) p = (if P p then None else map_of xs p)"
  by (induction xs) auto

lemma lookup_put [simp]: "lookup p (put q x s) = (if p = q then Some x else lookup p s)"
  using map_of_filter_fst [of "\<lambda>k. k = q" "files s" p] by (simp add: lookup_def put_def)

lemma lookup_remove_where [simp]:
  "lookup p (remove_where P s) = (if P p then None else lookup p s)"
  by (simp add: lookup_def remove_where_def map_of_filter_fst)

lemma lookup_updates [simp]:
  "lookup p (s\<lparr>console := c\<rparr>) = lookup p s"
  "lookup p (s\<lparr>active := a\<rparr>) = lookup p s"
  "lookup p (s\<lparr>enabled := b\<rparr>) = lookup p s"
  "lookup p (s\<lparr>previous_versions := v\<rparr>) = lookup p s"
  "lookup p (set_text f l s) = lookup p s"
  by (simp_all add: lookup_def set_text_def)

lemma existsSync_simps [simp]:
  "existsSync p (put q x s) = (p = q \<or> existsSync p s)"
  "existsSync p (remove_where P s) = (\<not> P p \<and> existsSync p s)"
  "existsSync p (s\<lparr>console := c\<rparr>) = existsSync p s"
  "existsSync p (s\<lparr>active := a\<rparr>) = existsSync p s"
  "existsSync p (s\<lparr>enabled := b\<rparr>) = existsSync p s"
  "existsSync p (s\<lparr>previous_versions := v\<rparr>) = existsSync p s"
  "existsSync p (set_text f l s) = existsSync p s"
  by (auto simp: existsSync_def)

lemma put_fields [simp]:
  "console (put p x s) = console s" "text_of (put p x s) = text_of s"
  "active (put p x s) = active s" "enabled (put p x s) = enabled s"
  "previous_versions (put p x s) = previous_versions s"
  by (simp_all add: put_def)

lemma remove_where_fields [simp]:
  "console (remove_where P s) = console s" "text_of (remove_where P s) = text_of s"
  "active (remove_where P s) = active s" "enabled (remove_where P s) = enabled s"
  "previous_versions (remove_where P s) = previous_versions s"
  by (simp_all add: remove_where_def)

lemma set_text_fields [simp]:
  "console (set_text f l s) = console s" "text_of (set_text f l s) = (text_of s)(f := Some l)"
  "active (set_text f l s) = active s" "enabled (set_text f l s) = enabled s"
  "previous_versions (set_text f l s) = previous_versions s" "files (set_text f l s) = files s"
  by (simp_all add: set_text_def)

lemma installed_updates [simp]:
  "installed pre (s\<lparr>console := c\<rparr>) = installed pre s"
  "installed pre (s\<lparr>active := a\<rparr>) = installed pre s"
  "installed pre (s\<lparr>enabled := b\<rparr>) = installed pre s"
  "installed pre (s\<lparr>previous_versions := v\<rparr>) = installed pre s"
  "installed pre (set_text f l s) = installed pre s"
  by (simp_all add: installed_def)

lemma installed_remove_aux:
  "map (\<lambda>e. (snd (fst e), snd e))
     (filter (\<lambda>e. fst (fst e) = Opt \<and> starts_with pre (snd (fst e)))
        (filter (\<lambda>e. \<not> P (fst e)) xs)) =
   filter (\<lambda>e. \<not> P (Opt, fst e))
     (map (\<lambda>e. (snd (fst e), snd e))
        (filter (\<lambda>e. fst (fst e) = Opt \<and> starts_with pre (snd (fst e))) xs))"
  by (induction xs) (auto simp: prod_eq_iff)

lemma installed_remove_where [simp]:
  "installed pre (remove_where P s) = filter (\<lambda>e. \<not> P (Opt, fst e)) (installed pre s)"
  using installed_remove_aux [of pre P "files s"] by (simp add: installed_def remove_where_def)

lemma installed_filter_aux:
  "map (\<lambda>e. (snd (fst e), snd e))
     (filter (\<lambda>e. fst (fst e) = Opt \<and> starts_with pre (snd (fst e)))
        (filter (\<lambda>e. fst e \<noteq> (d, n)) xs)) =
   filter (\<lambda>e. (Opt, fst e) \<noteq> (d, n))
     (map (\<lambda>e. (snd (fst e), snd e))
        (filter (\<lambda>e. fst (fst e) = Opt \<and> starts_with pre (snd (fst e))) xs))"
  by (induction xs) auto

lemma installed_put [simp]:
  "installed pre (put (d, n) x s) =
     (if d = Opt \<and> starts_with pre n
      then (n, x) # filter (\<lambda>e. fst e \<noteq> n) (installed pre s)
      else filter (\<lambda>e. (Opt, fst e) \<noteq> (d, n)) (installed pre s))"
  using installed_filter_aux [of pre d n "files s"]
  by (auto simp add: installed_def put_def)

lemma installed_glob_gone:
  "filter (\<lambda>e. \<not> starts_with pre (fst e)) (installed pre s) = []"
  by (auto simp: installed_def filter_empty_conv)

lemma starts_with_append [simp]: "starts_with p (p @ v)"
  by (induction p) auto

section \<open>Uninstalling never reports a failure\<close>

text \<open>
  Claim C10. \<^verbatim>\<open>uninstallJava\<close>, \<^verbatim>\<open>uninstallTomcat\<close> and \<^verbatim>\<open>fullUninstall\<close> return
  normally on every host and whatever commands fail, because each catches every
  error and only prints it. The \<^verbatim>\<open>uninstall\<close> command of the command line
  therefore always prints that it completed successfully and the process ends
  with status 0.
\<close>

theorem uninstall_always_resolves:
  "fst (uninstallJava w s) = Return () \<and>
   fst (uninstallTomcat w s) = Return () \<and>
   fst (fullUninstall w s) = Return () \<and>
   exit_status (fst (cli_uninstall w s)) = 0 \<and>
   last (console (snd (cli_uninstall w s))) = Log ''Uninstallation completed successfully!''"
proof -
  have "fst (seq [uninstallJava w, uninstallTomcat w, removePreviousVersionsFile w] t) = Return ()"
    for t
    by (rule seq_returns)
       (auto simp: uninstallJava_returns uninstallTomcat_returns removePreviousVersionsFile_returns)
  from safeAction_of_returning [of _ "''Uninstallation''" s, OF this]
  show ?thesis
    by (simp add: cli_uninstall_def uninstallJava_returns uninstallTomcat_returns
          fullUninstall_returns)
qed

section \<open>Rolling back without a backup\<close>

lemma runCommand_Cmd:
  "runCommand w (Cmd c) s =
     (if fails w c s \<or> effect w c s = None
      then (Throw (CommandFailed c),
            s\<lparr>console := console s @ [Err ''Command failed'', Err ''Error: '']\<rparr>)
      else (Return (trim (fst (the (effect w c s)))), snd (the (effect w c s))))"
  by (auto simp: runCommand_def try_catch_def bind_def next_do_def sh_def ret_def print_def
        throw_def split: option.splits)

lemma run_Cmd:
  "run w c s =
     (if fails w c s \<or> effect w c s = None
      then (Throw (CommandFailed c),
            s\<lparr>console := console s @ [Err ''Command failed'', Err ''Error: '']\<rparr>)
      else (Return (), snd (the (effect w c s))))"
  by (simp add: run_def next_do_def bind_def runCommand_Cmd ret_def)

lemma rollbackJava_returns: "fst (rollbackJava w s) = Return ()"
  unfolding rollbackJava_def by (rule caught_returns) (rule rollbackJava_try_no_exit)

lemma rollbackTomcat_returns: "fst (rollbackTomcat w s) = Return ()"
  unfolding rollbackTomcat_def by (rule caught_returns) (rule rollbackTomcat_try_no_exit)

lemma rollback_returns: "fst (rollback w s) = Return ()"
  unfolding rollback_def
proof (rule caught_returns)
  fix s n
  have "fst (rollbackJava w t) \<noteq> Exit n" "fst (rollbackTomcat w t) \<noteq> Exit n" for t
    by (simp_all add: rollbackJava_returns rollbackTomcat_returns)
  then show "fst (seq [print (Log ''Starting rollback process...''), rollbackJava w,
               rollbackTomcat w, print (Log ''Rollback process completed successfully.'')] s)
             \<noteq> Exit n"
    unfolding seq.simps by (intro no_exit)
qed

lemma rollbackJava_no_backup:
  assumes "filter (contains ''openjdk-'') (ls JavaBackups s) = []"
  shows "(snd (rollbackJava w s))\<lparr>console := console s\<rparr> = s \<and>
         last (console (snd (rollbackJava w s)))
           \<in> {Err ''No Java backup found for rollback.'', Err ''Java rollback failed:''}"
  using assms
  by (simp add: rollbackJava_def rollbackJava_try_def ctl runCommand_Cmd trim_def)

lemma rollbackTomcat_no_backup:
  assumes "filter (contains ''tomcat-'') (ls TomcatBackups s) = []"
  shows "(snd (rollbackTomcat w s))\<lparr>console := console s\<rparr> = s \<and>
         last (console (snd (rollbackTomcat w s)))
           \<in> {Err ''No Tomcat backup found for rollback.'', Err ''Tomcat rollback failed:''}"
  using assms
  by (simp add: rollbackTomcat_def rollbackTomcat_try_def ctl runCommand_Cmd trim_def)

text \<open>
  Claim C6 says that a rollback with no usable backup raises an error which the
  caller takes as a failure. On \<open>host17\<close>, which has no backup, \<^verbatim>\<open>rollbackJava\<close>
  returns normally, and the \<^verbatim>\<open>rollback\<close> command prints that it completed
  successfully and ends with status 0.
\<close>

theorem rollback_without_backup_counterexample:
  "filter (contains ''openjdk-'') (ls JavaBackups host17) = [] \<and>
   fst (rollbackJava world_ok host17) = Return () \<and>
   last (console (snd (cli_rollback world_ok host17))) = Log ''Rollback completed successfully!'' \<and>
   exit_status (fst (cli_rollback world_ok host17)) = 0"
  by code_simp

text \<open>
  Claim C6, as amended. When the backup directory of a component lists no backup,
  the rollback of that component prints an error (that no backup was found, or
  that the rollback failed when the listing command itself fails), returns
  without raising, and leaves the files, the environment files, the services and
  the versions record as they were: only the console grows. \<^verbatim>\<open>rollback\<close> always
  returns, so the \<^verbatim>\<open>rollback\<close> command reports success and ends with status 0.
\<close>

theorem rollback_without_backup:
  "(filter (contains ''openjdk-'') (ls JavaBackups s) = [] \<longrightarrow>
      fst (rollbackJava w s) = Return () \<and>
      (snd (rollbackJava w s))\<lparr>console := console s\<rparr> = s \<and>
      last (console (snd (rollbackJava w s)))
        \<in> {Err ''No Java backup found for rollback.'', Err ''Java rollback failed:''}) \<and>
   (filter (contains ''tomcat-'') (ls TomcatBackups s) = [] \<longrightarrow>
      fst (rollbackTomcat w s) = Return () \<and>
      (snd (rollbackTomcat w s))\<lparr>console := console s\<rparr> = s \<and>
      last (console (snd (rollbackTomcat w s)))
        \<in> {Err ''No Tomcat backup found for rollback.'', Err ''Tomcat rollback failed:''}) \<and>
   fst (rollback w s) = Return () \<and>
   exit_status (fst (cli_rollback w s)) = 0 \<and>
   last (console (snd (cli_rollback w s))) = Log ''Rollback completed successfully!''"
  using safeAction_of_returning [of "rollback w" "''Rollback''" s, OF rollback_returns]
    rollbackJava_no_backup [of s w] rollbackTomcat_no_backup [of s w]
  by (simp add: rollbackJava_returns rollbackTomcat_returns rollback_returns cli_rollback_def)

theorem rollback_without_backup_witness:
  "filter (contains ''openjdk-'') (ls JavaBackups host17) = [] \<and>
   filter (contains ''tomcat-'') (ls TomcatBackups host17) = [] \<and>
   fst (rollbackJava world_ok host17) = Return () \<and>
   (snd (rollbackJava world_ok host17))\<lparr>console := console host17\<rparr> = host17 \<and>
   fst (rollbackTomcat world_ok host17) = Return () \<and>
   (snd (rollbackTomcat world_ok host17))\<lparr>console := console host17\<rparr> = host17 \<and>
   exit_status (fst (cli_rollback world_ok host17)) = 0"
proof -
  have j: "filter (contains ''openjdk-'') (ls JavaBackups host17) = []"
    by code_simp
  have t: "filter (contains ''tomcat-'') (ls TomcatBackups host17) = []"
    by code_simp
  from rollback_without_backup [of host17 world_ok] j t show ?thesis
    by simp
qed

section \<open>Rolling back to a backup\<close>


lemma filter_not_then [simp]: "filter P (filter (\<lambda>x. \<not> P x) xs) = []"
  by (induction xs) auto






section \<open>When the upgrade is aborted\<close>

lemma if_no_exit2:
  "(b \<Longrightarrow> fst X \<noteq> Exit n) \<Longrightarrow> (\<not> b \<Longrightarrow> fst Y \<noteq> Exit n)
   \<Longrightarrow> fst (if b then X else Y) \<noteq> Exit n"
  by simp

lemma case_prod_no_exit:
  "(\<And>a b. fst (f a b s) \<noteq> Exit n) \<Longrightarrow> fst ((case p of (a, b) \<Rightarrow> f a b) s) \<noteq> Exit n"
  by (cases p) simp

lemma getCurrentVersions_no_exit: "fst (getCurrentVersions w s) \<noteq> Exit n"
  unfolding getCurrentVersions_def by (intro no_exit)

lemma createBackup_no_exit: "fst (createBackup w a b s) \<noteq> Exit n"
  unfolding createBackup_def seq.simps by (intro no_exit if_no_exit2)

lemma ensureTomcatUserAndGroup_no_exit: "fst (ensureTomcatUserAndGroup w s) \<noteq> Exit n"
  unfolding ensureTomcatUserAndGroup_def seq.simps by (intro no_exit)

lemma restoreJava_no_exit: "fst (restoreJava w v s) \<noteq> Exit n"
  unfolding restoreJava_def seq.simps by (intro no_exit)

lemma restoreTomcat_no_exit: "fst (restoreTomcat w v s) \<noteq> Exit n"
  unfolding restoreTomcat_def seq.simps by (intro no_exit ensureTomcatUserAndGroup_no_exit)

lemma rollbackUpgrade_no_exit: "fst (rollbackUpgrade w a b s) \<noteq> Exit n"
  unfolding rollbackUpgrade_def rollbackUpgrade_try_def seq.simps
  by (intro no_exit if_no_exit2 restoreJava_no_exit restoreTomcat_no_exit)

lemma upgradeJava_no_exit: "fst (upgradeJava w jv jurl s) \<noteq> Exit n"
  unfolding upgradeJava_def upgradeJava_try_def fetchJava_def seq.simps Let_def
  by (intro no_exit case_prod_no_exit createBackup_no_exit getCurrentVersions_no_exit
        rollbackUpgrade_no_exit)

lemma pruneOldServices_no_exit: "fst (pruneOldServices w tv s) \<noteq> Exit n"
proof -
  have "fst (next_do (print a) (run w c) t) \<noteq> Exit n" for a c t
    by (intro no_exit)
  then have "fst (seq (map (\<lambda>x. next_do (print (f x)) (run w (g x))) xs) t) \<noteq> Exit n"
    for f g xs t
    by (intro seq_no_exit) auto
  then show ?thesis
    unfolding pruneOldServices_def by (intro no_exit)
qed

lemma upgradeTomcat_no_exit: "fst (upgradeTomcat w tv turl jv s) \<noteq> Exit n"
  unfolding upgradeTomcat_def upgradeTomcat_try_def fetchTomcat_def seq.simps Let_def
  by (intro no_exit case_prod_no_exit createBackup_no_exit getCurrentVersions_no_exit
        rollbackUpgrade_no_exit ensureTomcatUserAndGroup_no_exit pruneOldServices_no_exit)

lemma tomcatStep_no_exit: "fst (tomcatStep w cfg b cj ct s) \<noteq> Exit n"
  unfolding tomcatStep_def seq.simps
  by (intro no_exit upgradeTomcat_no_exit rollbackUpgrade_no_exit)


lemma ls_updates [simp]:
  "ls d (s\<lparr>console := c\<rparr>) = ls d s"
  "ls d (s\<lparr>active := a\<rparr>) = ls d s"
  "ls d (s\<lparr>enabled := b\<rparr>) = ls d s"
  "ls d (s\<lparr>previous_versions := v\<rparr>) = ls d s"
  "ls d (set_text f l s) = ls d s"
  by (simp_all add: ls_def names_in_def)

lemma current_version_console [simp]:
  "current_version pre (s\<lparr>console := c\<rparr>) = current_version pre s"
  by (simp add: current_version_def)

lemma getCurrentVersions_frame:
  "(snd (getCurrentVersions w s))\<lparr>console := console s\<rparr> = s"
  by (simp add: getCurrentVersions_def ctl runCommand_Cmd)

lemma getCurrentVersions_returns:
  "\<exists>cj ct. fst (getCurrentVersions w s) = Return (cj, ct)"
  by (simp add: getCurrentVersions_def ctl runCommand_Cmd)

lemma getCurrentVersions_ok:
  assumes "\<not> fails w (LsGrepSedHead Opt ''openjdk-'') s"
    and "\<not> fails w (LsGrepSedHead Opt ''tomcat-'') s"
  shows "getCurrentVersions w s
           = (Return (Some (current_version ''openjdk-'' s), Some (current_version ''tomcat-'' s)), s)"
  using assms by (simp add: getCurrentVersions_def ctl runCommand_Cmd current_version_def)

lemma validate_result:
  assumes "getCurrentVersions w s = (Return (cj, ct), s1)"
  shows "fst (validateUpgradeConditions w jv tv s)
           = (if Some jv = cj \<or> Some tv = ct then Exit 1 else Return ())"
    and "(snd (validateUpgradeConditions w jv tv s))\<lparr>console := console s\<rparr> = s"
    and "fst (validateUpgradeConditions w jv tv s) \<noteq> Return ()
           \<Longrightarrow> \<exists>t. last (console (snd (validateUpgradeConditions w jv tv s))) = Err t"
  using assms getCurrentVersions_frame [where w = w and s = s]
  by (auto simp: validateUpgradeConditions_def ctl)


lemma frame_trans:
  fixes a b c :: host
  assumes "b\<lparr>console := console a\<rparr> = a" and "c\<lparr>console := console b\<rparr> = b"
  shows "c\<lparr>console := console a\<rparr> = a"
  using assms by (cases a, cases b, cases c) auto

lemma after_validation_no_exit:
  "fst (bind (try_catch (bind (upgradeJava w jv jurl) (\<lambda>b. ret (Some b)))
                (\<lambda>e. next_do (print a) (ret None)))
          (\<lambda>r. case r of None \<Rightarrow> ret () | Some b \<Rightarrow> tomcatStep w cfg b cj ct) s) \<noteq> Exit n"
proof (rule bind_no_exit)
  show "fst (try_catch (bind (upgradeJava w jv jurl) (\<lambda>b. ret (Some b)))
                (\<lambda>e. next_do (print a) (ret None)) s) \<noteq> Exit n" for s
    by (intro no_exit upgradeJava_no_exit)
  show "fst ((case r of None \<Rightarrow> ret () | Some b \<Rightarrow> tomcatStep w cfg b cj ct) s) \<noteq> Exit n" for r s
    by (cases r) (simp_all add: ret_no_exit tomcatStep_no_exit)
qed

text \<open>What \<^verbatim>\<open>upgrade\<close> does up to and including the validation.\<close>

lemma upgrade_try_until_validation:
  assumes cfg: "upgrade_config s = Some cfg"
  defines "s0 \<equiv> s\<lparr>console := console s @ [Log ''Starting upgrade process...'']\<rparr>"
  assumes cur: "getCurrentVersions w s0 = (Return (cj, ct), s1)"
  shows "upgrade_try w s =
           (case validateUpgradeConditions w (javaVersion cfg) (tomcatVersion cfg) s1 of
              (Return u, s2) \<Rightarrow>
                bind (try_catch
                        (bind (upgradeJava w (javaVersion cfg) (javaUrl cfg)) (\<lambda>b. ret (Some b)))
                        (\<lambda>e. next_do (print (Err ''Java upgrade failed. Aborting process.''))
                                (ret None)))
                  (\<lambda>r. case r of None \<Rightarrow> ret () | Some b \<Rightarrow> tomcatStep w cfg b cj ct) s2
            | (Throw e, s2) \<Rightarrow> (Throw e, s2)
            | (Exit n, s2) \<Rightarrow> (Exit n, s2))"
  using cfg cur
  by (auto simp: upgrade_try_def readUpgradeConfiguration_def ctl s0_def
        split: prod.splits outcome.splits)

lemma upgrade_exit:
  assumes ex: "fst (upgrade w s) = Exit n"
  shows "n = 1 \<and> (snd (upgrade w s))\<lparr>console := console s\<rparr> = s \<and>
         (\<exists>t. last (console (snd (upgrade w s))) = Err t)"
proof (cases "upgrade_config s")
  case None
  with ex show ?thesis
    by (simp add: upgrade_def upgrade_try_def readUpgradeConfiguration_def ctl)
next
  case (Some cfg)
  let ?s0 = "s\<lparr>console := console s @ [Log ''Starting upgrade process...'']\<rparr>"
  obtain cj ct s1 where cur: "getCurrentVersions w ?s0 = (Return (cj, ct), s1)"
    using getCurrentVersions_returns [of w ?s0] by (cases "getCurrentVersions w ?s0") auto
  have f1: "s1\<lparr>console := console s\<rparr> = s"
    using getCurrentVersions_frame [where w = w and s = ?s0] cur
    by (cases s, cases s1) auto
  let ?v = "validateUpgradeConditions w (javaVersion cfg) (tomcatVersion cfg) s1"
  obtain cj' ct' s1' where cur': "getCurrentVersions w s1 = (Return (cj', ct'), s1')"
    using getCurrentVersions_returns [of w s1] by (cases "getCurrentVersions w s1") auto
  note v = validate_result [OF cur', of "javaVersion cfg" "tomcatVersion cfg"]
  note u = upgrade_try_until_validation [OF Some cur]
  show ?thesis
  proof (cases "fst ?v = Exit 1")
    case True
    then have "upgrade_try w s = (Exit 1, snd ?v)"
      by (cases ?v) (simp add: u)
    then have r: "upgrade w s = (Exit 1, snd ?v)"
      by (simp add: upgrade_def try_catch_def)
    from True v(3) have "\<exists>t. last (console (snd ?v)) = Err t" by simp
    moreover from frame_trans [OF f1 v(2)] have "(snd ?v)\<lparr>console := console s\<rparr> = s" .
    ultimately show ?thesis using ex by (simp add: r)
  next
    case False
    with v(1) have "fst ?v = Return ()" by (simp split: if_splits)
    then obtain s2 where "?v = (Return (), s2)" by (cases ?v) simp
    then have "fst (upgrade_try w s) \<noteq> Exit n"
      using after_validation_no_exit by (simp add: u)
    then have "fst (upgrade w s) \<noteq> Exit n"
      by (cases "upgrade_try w s") (auto simp: upgrade_def try_catch_def print_def split: outcome.splits)
    with ex show ?thesis by simp
  qed
qed

lemma upgrade_exit_iff:
  assumes cfg: "upgrade_config s = Some cfg"
    and fj: "\<And>h. \<not> fails w (LsGrepSedHead Opt ''openjdk-'') h"
    and ft: "\<And>h. \<not> fails w (LsGrepSedHead Opt ''tomcat-'') h"
  shows "(fst (upgrade w s) = Exit 1) =
         (javaVersion cfg = current_version ''openjdk-'' s \<or>
          tomcatVersion cfg = current_version ''tomcat-'' s)"
proof -
  let ?s0 = "s\<lparr>console := console s @ [Log ''Starting upgrade process...'']\<rparr>"
  note cur = getCurrentVersions_ok [OF fj ft, of ?s0]
  note v = validate_result [OF cur, of "javaVersion cfg" "tomcatVersion cfg"]
  note u = upgrade_try_until_validation [OF cfg cur]
  let ?v = "validateUpgradeConditions w (javaVersion cfg) (tomcatVersion cfg) ?s0"
  show ?thesis
  proof (cases "javaVersion cfg = current_version ''openjdk-'' s \<or>
          tomcatVersion cfg = current_version ''tomcat-'' s")
    case True
    with v(1) have "fst ?v = Exit 1" by auto
    then have "upgrade_try w s = (Exit 1, snd ?v)"
      by (cases ?v) (simp add: u)
    with True show ?thesis by (simp add: upgrade_def try_catch_def)
  next
    case False
    with v(1) have "fst ?v = Return ()" by auto
    then obtain s2 where "?v = (Return (), s2)" by (cases ?v) simp
    then have "fst (upgrade_try w s) \<noteq> Exit 1"
      using after_validation_no_exit by (simp add: u)
    then have "fst (upgrade w s) \<noteq> Exit 1"
      by (cases "upgrade_try w s") (auto simp: upgrade_def try_catch_def print_def split: outcome.splits)
    with False show ?thesis by simp
  qed
qed


text \<open>
  Claim C5 says that the upgrade is aborted as a no-op exactly when both desired
  versions match, that this is reported as a success, and that an upgrade with
  only one matching version is not aborted. On \<open>host17\<close> (Java 17, Tomcat 9.0.98)
  an upgrade to Java 17 and Tomcat 10.1.34 is aborted with status 1, and an upgrade
  to Java 17 and Tomcat 9.0.98 makes the \<^verbatim>\<open>upgrade\<close> command end with status 1.
\<close>

theorem upgrade_noop_counterexample:
  "current_version ''openjdk-'' (host17_wants ''17'' ''10.1.34'') = ''17'' \<and>
   current_version ''tomcat-'' (host17_wants ''17'' ''10.1.34'') \<noteq> ''10.1.34'' \<and>
   fst (upgrade world_ok (host17_wants ''17'' ''10.1.34'')) = Exit 1 \<and>
   current_version ''openjdk-'' (host17_wants ''17'' ''9.0.98'') = ''17'' \<and>
   current_version ''tomcat-'' (host17_wants ''17'' ''9.0.98'') = ''9.0.98'' \<and>
   exit_status (fst (cli_upgrade world_ok (host17_wants ''17'' ''9.0.98''))) = 1"
  by code_simp

text \<open>
  Claim C5, as amended. \<^verbatim>\<open>validateUpgradeConditions\<close> ends the process with status 1
  when the desired Java version or the desired Tomcat version equals the version
  read from the host, and returns otherwise. So, when the two listing commands
  work, \<^verbatim>\<open>upgrade\<close> ends the process with status 1 exactly when at least one of the
  two desired versions is the installed one. Whenever \<^verbatim>\<open>upgrade\<close> ends the process,
  the status is 1, the last message is an error, and nothing but the console has
  changed on the host.
\<close>

theorem upgrade_aborts_when_a_version_matches:
  "(getCurrentVersions w s = (Return (cj, ct), s1) \<longrightarrow>
      fst (validateUpgradeConditions w jv tv s)
        = (if Some jv = cj \<or> Some tv = ct then Exit 1 else Return ())) \<and>
   (upgrade_config s = Some cfg \<longrightarrow>
    (\<forall>h. \<not> fails w (LsGrepSedHead Opt ''openjdk-'') h) \<longrightarrow>
    (\<forall>h. \<not> fails w (LsGrepSedHead Opt ''tomcat-'') h) \<longrightarrow>
      (fst (upgrade w s) = Exit 1) =
      (javaVersion cfg = current_version ''openjdk-'' s \<or>
       tomcatVersion cfg = current_version ''tomcat-'' s)) \<and>
   (fst (upgrade w s) = Exit n \<longrightarrow>
      n = 1 \<and> (snd (upgrade w s))\<lparr>console := console s\<rparr> = s \<and>
      (\<exists>t. last (console (snd (upgrade w s))) = Err t))"
  using validate_result(1) [of w s cj ct s1 jv tv] upgrade_exit_iff [of s cfg w]
    upgrade_exit [of w s n]
  by blast

theorem upgrade_aborts_when_a_version_matches_witness:
  "fst (getCurrentVersions world_ok (host17_wants ''17'' ''10.1.34''))
     = Return (Some ''17'', Some ''9.0.98'') \<and>
   fst (validateUpgradeConditions world_ok ''17'' ''10.1.34'' (host17_wants ''17'' ''10.1.34''))
     = Exit 1 \<and>
   upgrade_config (host17_wants ''17'' ''10.1.34'')
     = Some (desired21\<lparr>javaVersion := ''17'', tomcatVersion := ''10.1.34''\<rparr>) \<and>
   fst (upgrade world_ok (host17_wants ''17'' ''10.1.34'')) = Exit 1 \<and>
   (snd (upgrade world_ok (host17_wants ''17'' ''10.1.34'')))
       \<lparr>console := console (host17_wants ''17'' ''10.1.34'')\<rparr>
     = host17_wants ''17'' ''10.1.34''"
proof -
  let ?h = "host17_wants ''17'' ''10.1.34''"
  have a: "fst (getCurrentVersions world_ok ?h) = Return (Some ''17'', Some ''9.0.98'')"
    by code_simp
  then have a': "getCurrentVersions world_ok ?h
        = (Return (Some ''17'', Some ''9.0.98''), snd (getCurrentVersions world_ok ?h))"
    by (cases "getCurrentVersions world_ok ?h") simp
  have b: "upgrade_config ?h = Some (desired21\<lparr>javaVersion := ''17'', tomcatVersion := ''10.1.34''\<rparr>)"
    by (simp add: host17_wants_def)
  have c: "\<forall>h. \<not> fails world_ok (LsGrepSedHead Opt ''openjdk-'') h"
          "\<forall>h. \<not> fails world_ok (LsGrepSedHead Opt ''tomcat-'') h"
    by (simp_all add: world_ok_def)
  have d: "fst (upgrade world_ok ?h) = Exit 1"
    by code_simp
  from upgrade_aborts_when_a_version_matches
         [of world_ok ?h "Some ''17''" "Some ''9.0.98''" "snd (getCurrentVersions world_ok ?h)"
             "''17''" "''10.1.34''" "desired21\<lparr>javaVersion := ''17'', tomcatVersion := ''10.1.34''\<rparr>" 1]
    a a' b c d
  show ?thesis by simp
qed

section \<open>Facts about what procedures keep\<close>

lemma preservesD: "preserves f m \<Longrightarrow> f (snd (m s)) = f s"
  by (simp add: preserves_def)

lemma preserves_ret: "preserves f (ret a)"
  by (simp add: preserves_def ret_def)

lemma preserves_throw: "preserves f (throw e)"
  by (simp add: preserves_def throw_def)

lemma preserves_process_exit: "preserves f (process_exit n)"
  by (simp add: preserves_def process_exit_def)

lemma preserves_print: "quiet f \<Longrightarrow> preserves f (print a)"
  by (simp add: preserves_def print_def quiet_def)

lemma preserves_bind:
  assumes "preserves f m" and "\<And>a. preserves f (k a)"
  shows "preserves f (bind m k)"
  unfolding preserves_def
proof
  fix s
  show "f (snd (bind m k s)) = f s"
  proof (cases "m s")
    case (Pair r s')
    with preservesD [OF assms(1), of s] have "f s' = f s" by simp
    with Pair preservesD [OF assms(2), of _ s'] show ?thesis
      by (cases r) (simp_all add: bind_def)
  qed
qed

lemma preserves_next_do:
  "preserves f m \<Longrightarrow> preserves f k \<Longrightarrow> preserves f (next_do m k)"
  unfolding next_do_def by (rule preserves_bind)

lemma preserves_try_catch:
  assumes "preserves f m" and "\<And>e. preserves f (h e)"
  shows "preserves f (try_catch m h)"
  unfolding preserves_def
proof
  fix s
  show "f (snd (try_catch m h s)) = f s"
  proof (cases "m s")
    case (Pair r s')
    with preservesD [OF assms(1), of s] have "f s' = f s" by simp
    with Pair preservesD [OF assms(2), of _ s'] show ?thesis
      by (cases r) (simp_all add: try_catch_def)
  qed
qed

lemma preserves_if_state:
  "preserves f m \<Longrightarrow> preserves f k \<Longrightarrow> preserves f (\<lambda>s. if b s then m s else k s)"
  by (simp add: preserves_def)

lemma preserves_if:
  "(b \<Longrightarrow> preserves f m) \<Longrightarrow> (\<not> b \<Longrightarrow> preserves f k) \<Longrightarrow> preserves f (if b then m else k)"
  by simp

lemma preserves_case_prod:
  "(\<And>a b. preserves f (k a b)) \<Longrightarrow> preserves f (case p of (a, b) \<Rightarrow> k a b)"
  by (cases p) simp

lemma preserves_case_option:
  "preserves f m \<Longrightarrow> (\<And>a. preserves f (k a)) \<Longrightarrow> preserves f (case x of None \<Rightarrow> m | Some a \<Rightarrow> k a)"
  by (cases x) simp_all

lemma preserves_seq:
  "(\<And>m. m \<in> set ms \<Longrightarrow> preserves f m) \<Longrightarrow> preserves f (seq ms)"
  by (induction ms) (simp_all add: preserves_ret preserves_next_do)

lemma preserves_sh: "keeps f w c \<Longrightarrow> preserves f (sh w c)"
  by (auto simp: preserves_def keeps_def sh_def split: option.splits)

lemma preserves_and_chain: "list_all (keeps f w) cs \<Longrightarrow> preserves f (and_chain w cs)"
  by (induction w cs rule: and_chain.induct)
     (simp_all add: preserves_ret preserves_sh preserves_next_do)

lemma preserves_script_lines: "list_all (keeps f w) cs \<Longrightarrow> preserves f (script_lines w cs)"
  by (induction w cs rule: script_lines.induct)
     (simp_all add: preserves_ret preserves_sh preserves_next_do preserves_try_catch)

lemma preserves_runCommand_Cmd:
  "quiet f \<Longrightarrow> keeps f w c \<Longrightarrow> preserves f (runCommand w (Cmd c))"
  unfolding runCommand_def
  by (intro preserves_try_catch preserves_bind preserves_next_do preserves_print
        preserves_ret preserves_throw) (simp_all add: preserves_sh)

lemma preserves_runCommand_Lines:
  "quiet f \<Longrightarrow> list_all (keeps f w) cs \<Longrightarrow> preserves f (runCommand w (Lines cs))"
  unfolding runCommand_def
  by (intro preserves_try_catch preserves_bind preserves_next_do preserves_print
        preserves_ret preserves_throw) (simp_all add: preserves_script_lines)

lemma preserves_runCommand_AndChain:
  "quiet f \<Longrightarrow> list_all (keeps f w) cs \<Longrightarrow> preserves f (runCommand w (AndChain cs))"
  unfolding runCommand_def
  by (intro preserves_try_catch preserves_bind preserves_next_do preserves_print
        preserves_ret preserves_throw) (simp_all add: preserves_and_chain)

lemma preserves_run: "quiet f \<Longrightarrow> keeps f w c \<Longrightarrow> preserves f (run w c)"
  unfolding run_def by (intro preserves_next_do preserves_runCommand_Cmd preserves_ret)

lemmas preserves_rules = preserves_ret preserves_throw preserves_process_exit preserves_print
  preserves_bind preserves_next_do preserves_try_catch preserves_if_state preserves_if
  preserves_case_prod preserves_case_option preserves_run preserves_runCommand_Cmd
  preserves_runCommand_Lines preserves_runCommand_AndChain

lemma quiet_lookup [simp]: "quiet (lookup p)"
  by (simp add: quiet_def)

lemma quiet_previous_versions [simp]: "quiet previous_versions"
  by (simp add: quiet_def)

lemma keeps_lookup: "\<not> touches c p \<Longrightarrow> keeps (lookup p) w c"
  unfolding keeps_def
proof (induction c)
  case (OrTrue c)
  then show ?case by (auto split: option.splits)
qed (auto split: option.splits payload.splits if_splits simp: prod_eq_iff)

section \<open>A download that fails\<close>

text \<open>
  Claim C4 says that a component upgrade whose download fails after the old
  installation was removed restores the component from the backup it has just
  made. On \<open>host17\<close>, with the download of Java 21 failing, \<^verbatim>\<open>upgradeJava\<close> looks for
  a backup of version 21 (the version being installed), finds none, and throws: no
  Java is installed afterwards, although the backup of 17 is there, and the whole
  \<^verbatim>\<open>upgrade\<close> ends in that state. \<^verbatim>\<open>upgradeTomcat\<close> with a failing download reads the
  current Tomcat version after the removal, finds no backup for the empty
  version, and throws with no Tomcat installed.
\<close>

theorem upgradeJava_download_failure:
  "installed ''openjdk-'' host17 = [(''openjdk-17'', Tree ''jdk-17'')] \<and>
   fst (upgradeJava (world_no_download (javaUrl desired21)) ''21'' (javaUrl desired21) host17)
     = Throw (CommandFailed (Wget (javaUrl desired21) (Tmp, ''java-21.tar.gz''))) \<and>
   installed ''openjdk-''
     (snd (upgradeJava (world_no_download (javaUrl desired21)) ''21'' (javaUrl desired21) host17))
     = [] \<and>
   lookup (JavaBackups, ''openjdk-17'')
     (snd (upgradeJava (world_no_download (javaUrl desired21)) ''21'' (javaUrl desired21) host17))
     = Some (Tree ''jdk-17'') \<and>
   installed ''openjdk-'' (snd (upgrade (world_no_download (javaUrl desired21)) host17)) = [] \<and>
   installed ''tomcat-'' host17 = [(''tomcat-9.0.98'', Tree ''tomcat-9'')] \<and>
   fst (upgradeTomcat (world_no_download (tomcatUrl desired21)) ''10.1.34'' (tomcatUrl desired21)
          ''21'' host17)
     = Throw (CommandFailed (Wget (tomcatUrl desired21) (Tmp, ''tomcat-10.1.34.tar.gz''))) \<and>
   installed ''tomcat-''
     (snd (upgradeTomcat (world_no_download (tomcatUrl desired21)) ''10.1.34''
            (tomcatUrl desired21) ''21'' host17))
     = []"
  by code_simp

text \<open>
  Claim C2 says that a failed upgrade never makes the \<^verbatim>\<open>upgrade\<close> command end with
  status 0. On \<open>host17\<close>, with the download of Java 21 failing, \<^verbatim>\<open>upgradeJava\<close>
  throws, \<^verbatim>\<open>upgrade\<close> catches the error and returns, and the command prints that
  the upgrade completed successfully and ends with status 0. The same happens
  when the download of Tomcat fails.
\<close>

theorem failed_upgrade_exits_zero:
  "fst (upgradeJava (world_no_download (javaUrl desired21)) ''21'' (javaUrl desired21) host17)
     = Throw (CommandFailed (Wget (javaUrl desired21) (Tmp, ''java-21.tar.gz''))) \<and>
   exit_status (fst (cli_upgrade (world_no_download (javaUrl desired21)) host17)) = 0 \<and>
   last (console (snd (cli_upgrade (world_no_download (javaUrl desired21)) host17)))
     = Log ''Upgrade completed successfully!'' \<and>
   exit_status (fst (cli_upgrade (world_no_download (tomcatUrl desired21)) host17)) = 0"
  by code_simp

section \<open>JAVA_HOME after an installation\<close>

text \<open>
  Claim C8 says that after any mutation a file holds at most one declaration of
  the variable. \<^verbatim>\<open>installJava\<close> appends to \<^verbatim>\<open>/etc/profile\<close> without removing
  anything: after one \<^verbatim>\<open>install\<close> on a fresh host the file has one
  \<^verbatim>\<open>export JAVA_HOME=\<close> line, after a second \<^verbatim>\<open>install\<close> it has two.
\<close>

theorem install_appends_java_home:
  "map_option (filter (starts_with ''export JAVA_HOME=''))
     (text_of (snd (install world_ok desired21 host_fresh)) EtcProfile)
     = Some [''export JAVA_HOME='' @ dquote @ ''/opt/openjdk-21'' @ dquote] \<and>
   map_option (filter (starts_with ''export JAVA_HOME=''))
     (text_of (snd (install world_ok desired21 (snd (install world_ok desired21 host_fresh))))
        EtcProfile)
     = Some [''export JAVA_HOME='' @ dquote @ ''/opt/openjdk-21'' @ dquote,
             ''export JAVA_HOME='' @ dquote @ ''/opt/openjdk-21'' @ dquote]"
  by code_simp

section \<open>The record of previous versions\<close>

lemma keeps_previous_versions: "\<not> forgets c \<Longrightarrow> keeps previous_versions w c"
  unfolding keeps_def
proof (induction c)
  case (OrTrue c)
  then show ?case by (auto split: option.splits)
qed (auto split: option.splits payload.splits if_splits simp: put_def remove_where_def set_text_def)

lemma preserves_readUpgradeConfiguration: "quiet f \<Longrightarrow> preserves f readUpgradeConfiguration"
  unfolding readUpgradeConfiguration_def
  by (intro preserves_rules) (simp_all add: preserves_def split: option.splits)

lemma keeps_listing [simp]:
  "keeps f w (LsGrepHead d p)" "keeps f w (LsGrepSedHead d p)" "keeps f w (LsGrepSortTail d p)"
  "keeps f w (LsGrepGrepV d p q)" "keeps f w (Other t)" "keeps f w (Needs x t)"
  "keeps f w EchoJavaHome" "keeps f w (Source tf)"
  by (auto simp: keeps_def split: if_splits)

lemma preserves_getCurrentVersions: "quiet f \<Longrightarrow> preserves f (getCurrentVersions w)"
  unfolding getCurrentVersions_def by (intro preserves_rules) simp_all

lemma preserves_validate: "quiet f \<Longrightarrow> preserves f (validateUpgradeConditions w jv tv)"
  unfolding validateUpgradeConditions_def
  by (intro preserves_rules preserves_getCurrentVersions) simp_all

lemma preserves_ensureTomcatUserAndGroup: "quiet f \<Longrightarrow> preserves f (ensureTomcatUserAndGroup w)"
  unfolding ensureTomcatUserAndGroup_def seq.simps by (intro preserves_rules) simp_all

text \<open>The procedures of upgrade.js never touch \<^verbatim>\<open>previous_versions.json\<close>.\<close>

lemma pv_createBackup: "preserves previous_versions (createBackup w a b)"
  unfolding createBackup_def seq.simps
  by (intro preserves_rules) (simp_all add: keeps_previous_versions)

lemma pv_rollbackUpgrade: "preserves previous_versions (rollbackUpgrade w a b)"
  unfolding rollbackUpgrade_def rollbackUpgrade_try_def restoreJava_def restoreTomcat_def
    envCommands_def seq.simps
  by (intro preserves_rules preserves_ensureTomcatUserAndGroup)
     (simp_all add: keeps_previous_versions)

lemma pv_upgradeJava: "preserves previous_versions (upgradeJava w jv jurl)"
  unfolding upgradeJava_def upgradeJava_try_def fetchJava_def envCommands_def seq.simps Let_def
  by (intro preserves_rules pv_createBackup pv_rollbackUpgrade preserves_getCurrentVersions)
     (simp_all add: keeps_previous_versions)

lemma pv_pruneOldServices: "preserves previous_versions (pruneOldServices w tv)"
  unfolding pruneOldServices_def
  by (intro preserves_rules preserves_seq) (auto intro!: preserves_rules simp: keeps_previous_versions)

lemma pv_upgradeTomcat: "preserves previous_versions (upgradeTomcat w tv turl jv)"
  unfolding upgradeTomcat_def upgradeTomcat_try_def fetchTomcat_def seq.simps Let_def
  by (intro preserves_rules pv_createBackup pv_rollbackUpgrade preserves_getCurrentVersions
        preserves_ensureTomcatUserAndGroup pv_pruneOldServices)
     (simp_all add: keeps_previous_versions unit_file_def)

lemma pv_upgrade: "preserves previous_versions (upgrade w)"
  unfolding upgrade_def upgrade_try_def tomcatStep_def seq.simps
  by (intro preserves_rules preserves_readUpgradeConfiguration preserves_getCurrentVersions
        preserves_validate pv_upgradeJava pv_upgradeTomcat pv_rollbackUpgrade)
     (simp_all add: keeps_previous_versions)

lemma pv_rollback: "preserves previous_versions (rollback w)"
  unfolding rollback_def rollbackJava_def rollbackJava_try_def rollbackTomcat_def
    rollbackTomcat_try_def seq.simps Let_def
  by (intro preserves_rules) (simp_all add: keeps_previous_versions unit_file_def)


lemma fs_call_ok: "\<not> fs_fails w op s \<Longrightarrow> fs_call w op f s = (Return (), f s)"
  by (simp add: fs_call_def)

lemma fs_call_no_exit: "fst (fs_call w op f s) \<noteq> Exit n"
  by (simp add: fs_call_def)

lemma installJava_no_exit: "fst (installJava w jv jurl s) \<noteq> Exit n"
  unfolding installJava_def installJava_commands_def
  by (intro no_exit and_chain_no_exit sh_no_exit)

lemma ensureTomcatUser_callback_no_exit: "fst (ensureTomcatUser_callback w s) \<noteq> Exit n"
  unfolding ensureTomcatUser_callback_def
  by (intro try_catch_no_exit next_do_no_exit exec_no_exit print_no_exit)

lemma ensureTomcatUser_no_exit:
  "fst (ensureTomcatUser_started s) \<noteq> Exit n"
  "fst (ensureTomcatUser_at w k s) \<noteq> Exit n"
  "fst (ensureTomcatUser_late w s) \<noteq> Exit n"
  by (simp_all add: ensureTomcatUser_started_def ensureTomcatUser_at_def
        ensureTomcatUser_late_def ensureTomcatUser_callback_no_exit)

lemma installTomcat_no_exit:
  assumes nf: "\<And>h. \<not> fs_fails w WriteFile h"
  shows "fst (installTomcat w jv tv turl s) \<noteq> Exit n"
proof -
  have wf: "fst (try_catch (fs_call w WriteFile f) (\<lambda>e. process_exit 1) t) \<noteq> Exit n" for f t
    by (simp add: try_catch_def fs_call_ok nf)
  show ?thesis
    unfolding installTomcat_def Let_def seq.simps
    by (intro wf next_do_no_exit bind_no_exit if_no_exit if_no_exit2 ret_no_exit
          throw_no_exit print_no_exit exec_no_exit try_catch_no_exit ensureTomcatUser_no_exit)
qed

lemma createPreviousVersionsFile_no_exit: "fst (createPreviousVersionsFile w jv tv s) \<noteq> Exit n"
  unfolding createPreviousVersionsFile_def seq.simps
  apply (rule try_catch_no_exit)
   apply (cases "env_USER w"; simp; intro no_exit fs_call_no_exit)
  apply (rule print_no_exit)
  done

lemma createPreviousVersionsFile_writes:
  assumes "\<not> fs_fails w WriteFile s"
  shows "previous_versions (snd (createPreviousVersionsFile w jv tv s)) = Some (jv, tv)"
  using assms
  by (cases "env_USER w")
     (auto simp: createPreviousVersionsFile_def ctl fs_call_def)

lemma install_writes_installed_pair:
  assumes ok: "last (console (snd (install w cfg s)))
                 = Log ''Installation and previous_versions.json update complete.''"
    and nf: "\<And>h. \<not> fs_fails w WriteFile h"
  shows "previous_versions (snd (install w cfg s)) = Some (javaVersion cfg, tomcatVersion cfg)"
proof -
  let ?body = "seq [next_do (installJava w (javaVersion cfg) (javaUrl cfg)) (ret ()),
             installTomcat w (javaVersion cfg) (tomcatVersion cfg) (tomcatUrl cfg),
             createPreviousVersionsFile w (javaVersion cfg) (tomcatVersion cfg),
             print (Log ''Installation and previous_versions.json update complete.'')]"
  have ne: "fst (?body t) \<noteq> Exit n" for t n
    unfolding seq.simps
    by (intro no_exit installJava_no_exit installTomcat_no_exit nf
          createPreviousVersionsFile_no_exit)
  from ok obtain s' where body: "?body s = (Return (), s')"
    and res: "install w cfg s = (Return (), s')"
    unfolding install_def
    using catch_print_success [where m = ?body, OF _ ne] by blast
  from body obtain s2 s3 where
    c: "createPreviousVersionsFile w (javaVersion cfg) (tomcatVersion cfg) s2 = (Return (), s3)"
    and e: "s' = s3\<lparr>console := console s3
                  @ [Log ''Installation and previous_versions.json update complete.'']\<rparr>"
    by (auto simp: next_do_Return_iff print_Return_iff ret_Return_iff)
  from createPreviousVersionsFile_writes
         [OF nf, where s = s2 and jv = "javaVersion cfg" and tv = "tomcatVersion cfg"] c
  have "previous_versions s3 = Some (javaVersion cfg, tomcatVersion cfg)" by simp
  with e show ?thesis by (simp add: res)
qed


text \<open>
  Claim C9 says that after every fully successful operation a record is persisted
  that holds the pair of versions active before the transaction, not the new
  pair. On \<open>host17\<close> (Java 17, Tomcat 9.0.98) a successful \<^verbatim>\<open>install\<close> of Java 21 and
  Tomcat 10.1.34 writes the record (21, 10.1.34), the pair just installed; and a
  successful \<^verbatim>\<open>upgrade\<close> of a host without a record leaves it without one.
\<close>

theorem previous_versions_counterexample:
  "current_version ''openjdk-'' host17 = ''17'' \<and>
   current_version ''tomcat-'' host17 = ''9.0.98'' \<and>
   last (console (snd (install world_ok desired21 host17)))
     = Log ''Installation and previous_versions.json update complete.'' \<and>
   previous_versions (snd (install world_ok desired21 host17)) = Some (''21'', ''10.1.34'') \<and>
   last (console (snd (upgrade world_ok (host17\<lparr>previous_versions := None\<rparr>))))
     = Log ''Upgrade completed successfully.'' \<and>
   previous_versions (snd (upgrade world_ok (host17\<lparr>previous_versions := None\<rparr>))) = None"
  by code_simp

text \<open>
  Claim C9, as amended. After an \<^verbatim>\<open>install\<close> that printed its completion message,
  in a world where writing the file does not fail, \<^verbatim>\<open>previous_versions.json\<close> holds
  the pair of versions of the install descriptor, which is the pair just
  installed. \<^verbatim>\<open>upgrade\<close> and \<^verbatim>\<open>rollback\<close> leave the record as it is: they neither
  write nor remove it.
\<close>

theorem install_records_installed_pair:
  "(last (console (snd (install w cfg s)))
      = Log ''Installation and previous_versions.json update complete.'' \<longrightarrow>
    (\<forall>h. \<not> fs_fails w WriteFile h) \<longrightarrow>
      previous_versions (snd (install w cfg s)) = Some (javaVersion cfg, tomcatVersion cfg)) \<and>
   previous_versions (snd (upgrade w s)) = previous_versions s \<and>
   previous_versions (snd (rollback w s)) = previous_versions s"
  using install_writes_installed_pair [of w cfg s]
    preservesD [OF pv_upgrade, of w s] preservesD [OF pv_rollback, of w s]
  by blast

theorem install_records_installed_pair_witness:
  "last (console (snd (install world_ok desired21 host17)))
      = Log ''Installation and previous_versions.json update complete.'' \<and>
   (\<forall>h. \<not> fs_fails world_ok WriteFile h) \<and>
   previous_versions (snd (install world_ok desired21 host17))
      = Some (javaVersion desired21, tomcatVersion desired21) \<and>
   previous_versions (snd (upgrade world_ok host17)) = Some (''17'', ''9.0.98'')"
proof -
  have a: "last (console (snd (install world_ok desired21 host17)))
      = Log ''Installation and previous_versions.json update complete.''"
    by code_simp
  have b: "\<forall>h. \<not> fs_fails world_ok WriteFile h"
    by (simp add: world_ok_def)
  have c: "previous_versions host17 = Some (''17'', ''9.0.98'')"
    by (simp add: host17_def)
  from install_records_installed_pair [of world_ok desired21 host17] a b c
  show ?thesis by simp
qed

section \<open>Backups\<close>

lemma existing_console [simp]: "existing pre (s\<lparr>console := c\<rparr>) = existing pre s"
  by (simp add: existing_def)

lemma lk_createBackup: "p \<noteq> dst \<Longrightarrow> preserves (lookup p) (createBackup w src dst)"
  unfolding createBackup_def seq.simps
  by (intro preserves_rules) (simp_all add: keeps_lookup)

lemma lk_rollbackUpgrade: "d \<noteq> Opt \<Longrightarrow> preserves (lookup (d, n)) (rollbackUpgrade w a b)"
  unfolding rollbackUpgrade_def rollbackUpgrade_try_def restoreJava_def restoreTomcat_def
    envCommands_def seq.simps
  by (intro preserves_rules preserves_ensureTomcatUserAndGroup)
     (simp_all add: keeps_lookup)

lemma lk_fetchJava:
  "d \<noteq> Opt \<Longrightarrow> d \<noteq> Tmp \<Longrightarrow> preserves (lookup (d, n)) (fetchJava w jv jurl)"
  unfolding fetchJava_def envCommands_def seq.simps Let_def
  by (intro preserves_rules lk_rollbackUpgrade preserves_getCurrentVersions)
     (simp_all add: keeps_lookup)

lemma lk_pruneOldServices:
  "d \<noteq> Systemd \<Longrightarrow> preserves (lookup (d, n)) (pruneOldServices w tv)"
  unfolding pruneOldServices_def
  by (intro preserves_rules preserves_seq) (auto intro!: preserves_rules simp: keeps_lookup)

lemma lk_fetchTomcat:
  "d \<noteq> Opt \<Longrightarrow> d \<noteq> Tmp \<Longrightarrow> d \<noteq> Systemd
   \<Longrightarrow> preserves (lookup (d, n)) (fetchTomcat w tv turl jv)"
  unfolding fetchTomcat_def seq.simps Let_def
  by (intro preserves_rules lk_rollbackUpgrade preserves_getCurrentVersions
        preserves_ensureTomcatUserAndGroup lk_pruneOldServices)
     (simp_all add: keeps_lookup unit_file_def)



lemma upgradeJava_try_unfold:
  "upgradeJava_try w jv jurl s =
     (if fails w (Other ''sudo mkdir -p /opt/java_backups'') s
         \<or> fails w (LsGrepHead Opt ''openjdk-'') s
      then (Throw (CommandFailed
              (if fails w (Other ''sudo mkdir -p /opt/java_backups'') s
               then Other ''sudo mkdir -p /opt/java_backups'' else LsGrepHead Opt ''openjdk-'')),
            s\<lparr>console := console s @ [Err ''Command failed'', Err ''Error: '']\<rparr>)
      else next_do (if existing ''openjdk-'' s \<noteq> []
                    then seq [createBackup w (Opt, existing ''openjdk-'' s)
                                (JavaBackups, existing ''openjdk-'' s),
                              run w (RmRf (Opt, existing ''openjdk-'' s))]
                    else ret ())
             (fetchJava w jv jurl) s)"
  by (simp add: upgradeJava_try_def run_Cmd runCommand_Cmd bind_def next_do_def existing_def)

lemma upgradeTomcat_try_unfold:
  "upgradeTomcat_try w tv turl jv s =
     (if fails w (Other ''sudo mkdir -p /opt/tomcat_backups'') s
         \<or> fails w (LsGrepHead Opt ''tomcat-'') s
      then (Throw (CommandFailed
              (if fails w (Other ''sudo mkdir -p /opt/tomcat_backups'') s
               then Other ''sudo mkdir -p /opt/tomcat_backups'' else LsGrepHead Opt ''tomcat-'')),
            s\<lparr>console := console s @ [Err ''Command failed'', Err ''Error: '']\<rparr>)
      else next_do (if existing ''tomcat-'' s \<noteq> []
                    then seq [createBackup w (Opt, existing ''tomcat-'' s)
                                (TomcatBackups, existing ''tomcat-'' s),
                              run w (RmRf (Opt, existing ''tomcat-'' s))]
                    else ret ())
             (fetchTomcat w tv turl jv) s)"
  by (simp add: upgradeTomcat_try_def run_Cmd runCommand_Cmd bind_def next_do_def existing_def)

lemma rethrow_keeps:
  assumes "quiet f"
  shows "f (snd (try_catch m (\<lambda>e. next_do (print a) (throw e)) s)) = f (snd (m s))"
  using assms
  by (cases "m s") (auto simp: try_catch_def next_do_def bind_def print_def throw_def quiet_def
       split: outcome.splits)




lemma rethrow_Return_iff:
  "try_catch m (\<lambda>e. next_do (print a) (throw e)) s = (Return x, s') \<longleftrightarrow> m s = (Return x, s')"
  by (cases "m s") (auto simp: try_catch_def next_do_def bind_def print_def throw_def
       split: outcome.splits)

lemma createBackup_Return:
  assumes "createBackup w src dst s = (Return u, s')"
  shows "lookup dst s' = lookup src s \<and> lookup src s \<noteq> None \<and>
         (\<forall>p. p \<noteq> dst \<longrightarrow> lookup p s' = lookup p s)"
  using assms
  by (auto simp: createBackup_def rethrow_Return_iff returns split: if_splits option.splits)

lemma run_keeps_lookup:
  "\<not> touches c p \<Longrightarrow> lookup p (snd (run w c s)) = lookup p s"
  using preservesD [OF preserves_run [OF quiet_lookup keeps_lookup]] by blast

lemma upgradeJava_Return_backup:
  assumes r: "upgradeJava w jv jurl s = (Return b, s')"
    and e: "existing ''openjdk-'' s = e" "e \<noteq> []"
  shows "lookup (JavaBackups, e) s' = lookup (Opt, e) s \<and> lookup (Opt, e) s \<noteq> None"
proof -
  from r have "upgradeJava_try w jv jurl s = (Return b, s')"
    by (simp add: upgradeJava_def rethrow_Return_iff)
  with e obtain s1 s2 where
    c: "createBackup w (Opt, e) (JavaBackups, e) s = (Return (), s1)"
    and d: "run w (RmRf (Opt, e)) s1 = (Return (), s2)"
    and f: "fetchJava w jv jurl s2 = (Return b, s')"
    by (auto simp: upgradeJava_try_unfold next_do_Return_iff ret_Return_iff split: if_splits)
  from createBackup_Return [OF c]
  have 1: "lookup (JavaBackups, e) s1 = lookup (Opt, e) s" and 2: "lookup (Opt, e) s \<noteq> None"
    by simp_all
  from run_keeps_lookup [of "RmRf (Opt, e)" "(JavaBackups, e)" w s1] d
  have 3: "lookup (JavaBackups, e) s2 = lookup (JavaBackups, e) s1" by simp
  from preservesD [OF lk_fetchJava [of JavaBackups e w jv jurl], of s2] f
  have 4: "lookup (JavaBackups, e) s' = lookup (JavaBackups, e) s2" by simp
  from 1 2 3 4 show ?thesis by simp
qed







section \<open>The compensation after a failed Tomcat upgrade\<close>

text \<open>
  What \<^verbatim>\<open>rollbackUpgrade\<close> does to the installations under \<^verbatim>\<open>/opt\<close>, and what the
  orchestrator \<^verbatim>\<open>upgrade\<close> does once \<^verbatim>\<open>upgradeJava\<close> has returned and \<^verbatim>\<open>upgradeTomcat\<close>
  has thrown.
\<close>

lemma quiet_installed [simp]: "quiet (installed pre)"
  by (simp add: quiet_def)

lemma installed_filter_other:
  assumes "\<And>n. starts_with pre n \<Longrightarrow> \<not> P (Opt, n)"
  shows "filter (\<lambda>e. \<not> P (Opt, fst e)) (installed pre s) = installed pre s"
  using assms by (auto simp: installed_def filter_id_conv)

lemma keeps_installed: "(\<And>n. \<not> touches c (Opt, n)) \<Longrightarrow> keeps (installed pre) w c"
  unfolding keeps_def
proof (induction c)
  case (OrTrue c)
  then show ?case by (auto split: option.splits)
next
  case (CpR src dst)
  then show ?case
    by (cases dst) (auto split: option.splits if_splits simp: installed_filter_other)
next
  case (Mv src dst)
  then show ?case
    by (cases dst; cases src) (auto split: option.splits if_splits simp: installed_filter_other)
next
  case (MkdirP q)
  then show ?case by (cases q) (auto split: option.splits if_splits simp: installed_filter_other)
next
  case (Wget u q)
  then show ?case by (cases q) (auto split: option.splits if_splits simp: installed_filter_other)
next
  case (TarXStrip f q)
  then show ?case
    by (cases q) (auto split: option.splits if_splits payload.splits simp: installed_filter_other)
next
  case (Tee q x)
  then show ?case by (cases q) (auto split: option.splits if_splits simp: installed_filter_other)
next
  case (RmRfGlob d q)
  from RmRfGlob [of q] starts_with_append [of q "[]"] have "d \<noteq> Opt" by auto
  then show ?case by (auto simp: installed_filter_other)
next
  case (RmGlob d q suf)
  from RmGlob [of q] starts_with_append [of q "[]"] have "d \<noteq> Opt" by auto
  then show ?case by (auto simp: installed_filter_other)
qed (auto split: option.splits payload.splits if_splits simp: installed_filter_other)

lemma tomcat_not_openjdk:
  "starts_with ''tomcat-'' n \<Longrightarrow> \<not> starts_with ''openjdk-'' n"
  "starts_with ''openjdk-'' n \<Longrightarrow> \<not> starts_with ''tomcat-'' n"
  by (cases n; auto)+

lemma installed_tomcat_without_openjdk [simp]:
  "filter (\<lambda>e. \<not> starts_with ''openjdk-'' (fst e)) (installed ''tomcat-'' s)
     = installed ''tomcat-'' s"
  "filter (\<lambda>e. fst e \<noteq> ''openjdk-'' @ v) (installed ''tomcat-'' s) = installed ''tomcat-'' s"
  "filter (\<lambda>e. \<not> starts_with ''tomcat-'' (fst e)) (installed ''openjdk-'' s)
     = installed ''openjdk-'' s"
  "filter (\<lambda>e. fst e \<noteq> ''tomcat-'' @ v) (installed ''openjdk-'' s) = installed ''openjdk-'' s"
  by (auto simp: installed_def filter_id_conv tomcat_not_openjdk)

lemma pi_envCommands: "preserves (installed pre) (runCommand w (envCommands d))"
  unfolding envCommands_def
  by (intro preserves_rules) (simp_all add: keeps_installed)

lemma lk_envCommands: "preserves (lookup p) (runCommand w (envCommands d))"
  unfolding envCommands_def
  by (intro preserves_rules) (simp_all add: keeps_lookup)

lemma env_installed:
  "runCommand w (envCommands d) s = (r, s') \<Longrightarrow> installed pre s' = installed pre s"
  using preservesD [OF pi_envCommands, of pre w d s] by simp

lemma env_lookup:
  "runCommand w (envCommands d) s = (r, s') \<Longrightarrow> lookup p s' = lookup p s"
  using preservesD [OF lk_envCommands, of p w d s] by simp

lemma restoreJava_effect:
  assumes r: "restoreJava w v s = (Return (), s')"
    and b: "lookup (JavaBackups, ''openjdk-'' @ v) s = Some x"
  shows "installed ''openjdk-'' s' = [(''openjdk-'' @ v, x)] \<and>
         installed ''tomcat-'' s' = installed ''tomcat-'' s \<and>
         lookup (TomcatBackups, n) s' = lookup (TomcatBackups, n) s"
  using r b
  apply (clarsimp simp: restoreJava_def next_do_Return_iff print_Return_iff run_Return_iff
        ret_Return_iff simp del: append.simps split: if_splits option.splits)
  apply (frule env_installed [where pre = "''openjdk-''"])
  apply (frule env_installed [where pre = "''tomcat-''"])
  apply (frule env_lookup [where p = "(TomcatBackups, n)"])
  apply (simp add: installed_glob_gone tomcat_not_openjdk del: append.simps)
  done


lemma ensure_installed:
  "ensureTomcatUserAndGroup w s = (r, s') \<Longrightarrow> installed pre s' = installed pre s"
  using preservesD [OF preserves_ensureTomcatUserAndGroup [OF quiet_installed], of pre w s]
  by simp

lemma ensure_lookup:
  "ensureTomcatUserAndGroup w s = (r, s') \<Longrightarrow> lookup p s' = lookup p s"
  using preservesD [OF preserves_ensureTomcatUserAndGroup [OF quiet_lookup], of p w s]
  by simp

lemma prefix_clash [simp]:
  "\<not> starts_with ''openjdk-'' (''tomcat-'' @ v)" "\<not> starts_with ''tomcat-'' (''openjdk-'' @ v)"
  by simp_all

lemma if_Some_eq: "((if c then Some a else None) = Some b) = (c \<and> a = b)"
  by simp

lemma restoreTomcat_effect:
  assumes r: "restoreTomcat w v s = (Return (), s')"
    and b: "lookup (TomcatBackups, ''tomcat-'' @ v) s = Some x"
  shows "installed ''tomcat-'' s' = [(''tomcat-'' @ v, x)] \<and>
         installed ''openjdk-'' s' = installed ''openjdk-'' s"
  using r b
  apply (clarsimp simp: restoreTomcat_def next_do_Return_iff print_Return_iff run_Return_iff
        ret_Return_iff if_Some_eq simp del: append.simps split: option.splits)
  apply (frule ensure_installed [where pre = "''openjdk-''"])
  apply (frule ensure_installed [where pre = "''tomcat-''"])
  apply (simp add: installed_glob_gone del: append.simps split: if_splits)
  done

lemma rollbackUpgrade_try_no_exit: "fst (rollbackUpgrade_try w a b s) \<noteq> Exit n"
  unfolding rollbackUpgrade_try_def seq.simps
  by (intro no_exit if_no_exit2 restoreJava_no_exit restoreTomcat_no_exit)

lemma rollbackUpgrade_returns: "fst (rollbackUpgrade w a b s) = Return ()"
  unfolding rollbackUpgrade_def
  by (intro next_do_returns print_returns caught_returns rollbackUpgrade_try_no_exit)

lemma seq3_Return:
  assumes "seq [a, b, c] s = (Return (), s')"
  shows "\<exists>s1 s2. a s = (Return (), s1) \<and> b s1 = (Return (), s2) \<and> c s2 = (Return (), s')"
  using assms by (auto simp: next_do_Return_iff ret_Return_iff)

lemma rollbackUpgrade_success:
  assumes ok: "last (console (snd (rollbackUpgrade w (Some j) (Some t) s)))
                 = Log ''Rollback to previous versions completed successfully.''"
    and bj: "lookup (JavaBackups, ''openjdk-'' @ j) s = Some xj"
  shows "installed ''openjdk-'' (snd (rollbackUpgrade w (Some j) (Some t) s))
           = [(''openjdk-'' @ j, xj)] \<and>
         installed ''tomcat-'' (snd (rollbackUpgrade w (Some j) (Some t) s))
           = (case lookup (TomcatBackups, ''tomcat-'' @ t) s of
                Some xt \<Rightarrow> [(''tomcat-'' @ t, xt)]
              | None \<Rightarrow> installed ''tomcat-'' s)"
proof -
  let ?s0 = "s\<lparr>console := console s @ [Log ''Rolling back due to failure...'']\<rparr>"
  have u: "rollbackUpgrade w (Some j) (Some t) s
             = try_catch (rollbackUpgrade_try w (Some j) (Some t))
                 (\<lambda>e. print (Err ''Rollback failed:'')) ?s0"
    by (simp add: rollbackUpgrade_def next_do_def bind_def print_def)
  from ok obtain s' where body: "rollbackUpgrade_try w (Some j) (Some t) ?s0 = (Return (), s')"
    and res: "rollbackUpgrade w (Some j) (Some t) s = (Return (), s')"
    unfolding u
    using catch_print_success
            [where m = "rollbackUpgrade_try w (Some j) (Some t)", OF _ rollbackUpgrade_try_no_exit]
    by blast
  have bj0: "lookup (JavaBackups, ''openjdk-'' @ j) ?s0 = Some xj"
    using bj by simp
  from seq3_Return [OF body [unfolded rollbackUpgrade_try_def]] obtain s1 s2 where
    rj0: "(if existsSync (JavaBackups, ''openjdk-'' @ show_version (Some j)) ?s0
              then restoreJava w (show_version (Some j)) ?s0
              else print (Warn (''No Java backup found for version '' @ show_version (Some j)
                                 @ ''. Skipping rollback.'')) ?s0)
             = (Return (), s1)"
    and rt: "(if existsSync (TomcatBackups, ''tomcat-'' @ show_version (Some t)) s1
              then restoreTomcat w (show_version (Some t)) s1
              else print (Warn (''No Tomcat backup found for version '' @ show_version (Some t)
                                 @ ''. Skipping rollback.'')) s1)
             = (Return (), s2)"
    and fin0: "print (Log ''Rollback to previous versions completed successfully.'') s2
                = (Return (), s')"
    by blast
  from rj0 bj0 have rj: "restoreJava w j ?s0 = (Return (), s1)"
    by (simp add: existsSync_def)
  from fin0 have fin: "s' = s2\<lparr>console := console s2
                 @ [Log ''Rollback to previous versions completed successfully.'']\<rparr>"
    by (simp add: print_Return_iff)
  note ej = restoreJava_effect [OF rj bj0, of "''tomcat-'' @ t"]
  show ?thesis
  proof (cases "lookup (TomcatBackups, ''tomcat-'' @ t) s")
    case None
    with ej have "\<not> existsSync (TomcatBackups, ''tomcat-'' @ t) s1"
      by (simp add: existsSync_def)
    with rt have "s2 = s1\<lparr>console := console s2\<rparr>"
      by (auto simp: print_def)
    then have "installed pre s2 = installed pre s1" for pre
      by (metis installed_updates(1))
    with ej None fin show ?thesis by (simp add: res)
  next
    case (Some xt)
    with ej have x: "existsSync (TomcatBackups, ''tomcat-'' @ t) s1"
      and b: "lookup (TomcatBackups, ''tomcat-'' @ t) s1 = Some xt"
      by (simp_all add: existsSync_def)
    from rt x have "restoreTomcat w t s1 = (Return (), s2)" by simp
    from restoreTomcat_effect [OF this b] ej Some fin show ?thesis by (simp add: res)
  qed
qed


lemma upgrade_compensates:
  assumes cfg: "upgrade_config s = Some cfg"
    and cur: "getCurrentVersions w (s\<lparr>console := console s @ [Log ''Starting upgrade process...'']\<rparr>)
                = (Return (cj, ct), s1)"
    and val: "validateUpgradeConditions w (javaVersion cfg) (tomcatVersion cfg) s1 = (Return (), s2)"
    and java: "upgradeJava w (javaVersion cfg) (javaUrl cfg) s2 = (Return True, s3)"
    and tomcat: "upgradeTomcat w (tomcatVersion cfg) (tomcatUrl cfg) (javaVersion cfg) s3
                   = (Throw e, s4)"
    and s5: "s5 = s4\<lparr>console := console s4 @
                [Err ''Tomcat upgrade failed. Rolling back...'',
                 Log (''Rolling back Java '' @ javaVersion cfg @ '' to '' @ show_version cj
                        @ '' since Tomcat failed...'')]\<rparr>"
  shows "upgrade w s =
           (Return (),
            (snd (rollbackUpgrade w cj ct s5))
              \<lparr>console := console (snd (rollbackUpgrade w cj ct s5))
                            @ [Err ''Upgrade process failed:'']\<rparr>)"
proof -
  obtain s6 where r: "rollbackUpgrade w cj ct s5 = (Return (), s6)"
    using rollbackUpgrade_returns [of w cj ct s5] by (cases "rollbackUpgrade w cj ct s5") simp
  have "tomcatStep w cfg True cj ct s3 = (Throw e, s6)"
    using tomcat r by (simp add: tomcatStep_def ctl s5)
  then have "upgrade_try w s = (Throw e, s6)"
    using java val by (simp add: upgrade_try_until_validation [OF cfg cur] ctl)
  then show ?thesis
    by (simp add: upgrade_def try_catch_def print_def r)
qed

lemma lk_upgradeTomcat_java:
  "preserves (lookup (JavaBackups, n)) (upgradeTomcat w tv turl jv)"
  unfolding upgradeTomcat_def upgradeTomcat_try_def seq.simps
  by (intro preserves_rules lk_createBackup lk_fetchTomcat) (simp_all add: keeps_lookup)

lemma pi_createBackup:
  "fst dst \<noteq> Opt \<Longrightarrow> preserves (installed pre) (createBackup w src dst)"
  unfolding createBackup_def seq.simps
  by (cases dst) (auto intro!: preserves_rules keeps_installed)

lemma upgradeTomcat_without_backup:
  assumes e: "existing ''tomcat-'' s \<noteq> []"
    and nb: "lookup (TomcatBackups, existing ''tomcat-'' s) (snd (upgradeTomcat w tv turl jv s)) = None"
  shows "installed ''tomcat-'' (snd (upgradeTomcat w tv turl jv s)) = installed ''tomcat-'' s"
proof -
  let ?E = "existing ''tomcat-'' s"
  have i: "installed ''tomcat-'' (snd (upgradeTomcat w tv turl jv s))
             = installed ''tomcat-'' (snd (upgradeTomcat_try w tv turl jv s))"
    and l: "lookup (TomcatBackups, ?E) (snd (upgradeTomcat w tv turl jv s))
             = lookup (TomcatBackups, ?E) (snd (upgradeTomcat_try w tv turl jv s))"
    by (simp_all add: upgradeTomcat_def rethrow_keeps)
  show ?thesis
  proof (cases "fails w (Other ''sudo mkdir -p /opt/tomcat_backups'') s
         \<or> fails w (LsGrepHead Opt ''tomcat-'') s")
    case True
    then show ?thesis by (auto simp: i upgradeTomcat_try_unfold)
  next
    case False
    let ?c = "createBackup w (Opt, ?E) (TomcatBackups, ?E)"
    let ?rest = "next_do (run w (RmRf (Opt, ?E))) (fetchTomcat w tv turl jv)"
    have u: "upgradeTomcat_try w tv turl jv s = next_do ?c ?rest s"
      using False e by (simp add: upgradeTomcat_try_unfold next_do_def bind_def ret_def
            split: prod.splits outcome.splits)
    have pc: "installed ''tomcat-'' (snd (?c s)) = installed ''tomcat-'' s"
      using preservesD [OF pi_createBackup [of "(TomcatBackups, ?E)" "''tomcat-''" w "(Opt, ?E)"]]
      by simp
    have pr: "preserves (lookup (TomcatBackups, ?E)) ?rest"
      by (intro preserves_rules lk_fetchTomcat) (simp_all add: keeps_lookup)
    obtain r sa where c: "?c s = (r, sa)" by (cases "?c s")
    show ?thesis
    proof (cases r)
      case (Return u)
      with c createBackup_Return [of w "(Opt, ?E)" "(TomcatBackups, ?E)" s u sa]
      have "lookup (TomcatBackups, ?E) sa \<noteq> None" by simp
      moreover have "upgradeTomcat_try w tv turl jv s = ?rest sa"
        using c Return by (simp add: u next_do_def bind_def)
      ultimately have "lookup (TomcatBackups, ?E) (snd (upgradeTomcat_try w tv turl jv s)) \<noteq> None"
        using preservesD [OF pr, of sa] by simp
      with nb l show ?thesis by simp
    next
      case (Throw x)
      with c have "upgradeTomcat_try w tv turl jv s = (Throw x, sa)"
        by (simp add: u next_do_def bind_def)
      with pc c show ?thesis by (simp add: i)
    next
      case (Exit k)
      with c createBackup_no_exit [of w "(Opt, ?E)" "(TomcatBackups, ?E)" s k]
      show ?thesis by simp
    qed
  qed
qed

lemma same_but_console:
  fixes a b :: host
  assumes "b\<lparr>console := console a\<rparr> = a"
  shows "lookup p b = lookup p a" and "existing pre b = existing pre a"
    and "installed pre b = installed pre a"
proof -
  from assms have "a = b\<lparr>console := console a\<rparr>" by simp
  then have e: "lookup p a = lookup p (b\<lparr>console := console a\<rparr>)"
    "existing pre a = existing pre (b\<lparr>console := console a\<rparr>)"
    "installed pre a = installed pre (b\<lparr>console := console a\<rparr>)"
    by simp_all
  from e show "lookup p b = lookup p a" "existing pre b = existing pre a"
    "installed pre b = installed pre a"
    by simp_all
qed

text \<open>
  Claim C1 says that whenever the Java upgrade succeeds and the Tomcat upgrade
  then fails, the end state has Java at the prior version and Tomcat at its
  version from before the transaction. On \<open>host17\<close>, in a world where the download
  of the Tomcat archive fails and the copy out of the Java backup directory fails
  too, \<^verbatim>\<open>upgradeJava\<close> returns \<^verbatim>\<open>true\<close>, \<^verbatim>\<open>upgradeTomcat\<close> throws, the compensation removes
  \<^verbatim>\<open>/opt/openjdk-*\<close>, fails at its \<^verbatim>\<open>cp\<close>, and only prints that failure: in the end
  state neither a Java nor a Tomcat installation is left.
\<close>

theorem compensation_counterexample:
  "installed ''openjdk-'' host17 = [(''openjdk-17'', Tree ''jdk-17'')] \<and>
   fst (upgradeJava world_no_restore ''21'' (javaUrl desired21) host17) = Return True \<and>
   fst (upgradeTomcat world_no_restore ''10.1.34'' (tomcatUrl desired21) ''21''
          (snd (upgradeJava world_no_restore ''21'' (javaUrl desired21) host17)))
     = Throw (CommandFailed (Wget (tomcatUrl desired21) (Tmp, ''tomcat-10.1.34.tar.gz''))) \<and>
   installed ''openjdk-'' (snd (upgrade world_no_restore host17)) = [] \<and>
   installed ''tomcat-'' (snd (upgrade world_no_restore host17)) = []"
  by code_simp

text \<open>
  Claim C1, as amended. Let the orchestrator read the versions \<open>j1\<close> and \<open>t1\<close> from
  the host, pass the validation, have \<^verbatim>\<open>upgradeJava\<close> return \<^verbatim>\<open>true\<close> and have
  \<^verbatim>\<open>upgradeTomcat\<close> throw. Then \<^verbatim>\<open>upgrade\<close> prints two messages, calls
  \<^verbatim>\<open>rollbackUpgrade\<close> once, with \<open>j1\<close> and \<open>t1\<close>, prints the failure and returns; the
  backup of Java \<open>j1\<close> that this upgrade made is there when the compensation
  starts. If the compensation ends with its message of success, the only Java
  installation of the end state is that of \<open>j1\<close>, with the content it had before
  the transaction, and Tomcat is the installation of \<open>t1\<close> restored from its
  backup when there is one, and otherwise what \<^verbatim>\<open>upgradeTomcat\<close> left, which, when
  \<open>t1\<close> was what was installed as \<^verbatim>\<open>upgradeTomcat\<close> started, is what it found.
\<close>

theorem compensation_after_failed_tomcat_upgrade:
  assumes cfg: "upgrade_config s = Some cfg"
    and cur: "getCurrentVersions w (s\<lparr>console := console s @ [Log ''Starting upgrade process...'']\<rparr>)
                = (Return (Some j1, Some t1), s1)"
    and val: "validateUpgradeConditions w (javaVersion cfg) (tomcatVersion cfg) s1 = (Return (), s2)"
    and java: "upgradeJava w (javaVersion cfg) (javaUrl cfg) s2 = (Return True, s3)"
    and tomcat: "upgradeTomcat w (tomcatVersion cfg) (tomcatUrl cfg) (javaVersion cfg) s3
                   = (Throw e, s4)"
    and s5: "s5 = s4\<lparr>console := console s4 @
                [Err ''Tomcat upgrade failed. Rolling back...'',
                 Log (''Rolling back Java '' @ javaVersion cfg @ '' to '' @ show_version (Some j1)
                        @ '' since Tomcat failed...'')]\<rparr>"
    and ej: "existing ''openjdk-'' s = ''openjdk-'' @ j1"
    and xj: "lookup (Opt, ''openjdk-'' @ j1) s = Some xj"
  shows "upgrade w s =
           (Return (),
            (snd (rollbackUpgrade w (Some j1) (Some t1) s5))
              \<lparr>console := console (snd (rollbackUpgrade w (Some j1) (Some t1) s5))
                            @ [Err ''Upgrade process failed:'']\<rparr>) \<and>
         lookup (JavaBackups, ''openjdk-'' @ j1) s5 = Some xj \<and>
         (last (console (snd (rollbackUpgrade w (Some j1) (Some t1) s5)))
            = Log ''Rollback to previous versions completed successfully.'' \<longrightarrow>
          installed ''openjdk-'' (snd (upgrade w s)) = [(''openjdk-'' @ j1, xj)] \<and>
          installed ''tomcat-'' (snd (upgrade w s))
            = (case lookup (TomcatBackups, ''tomcat-'' @ t1) s4 of
                 Some xt \<Rightarrow> [(''tomcat-'' @ t1, xt)]
               | None \<Rightarrow> installed ''tomcat-'' s4)) \<and>
         (existing ''tomcat-'' s3 = ''tomcat-'' @ t1 \<longrightarrow>
          lookup (TomcatBackups, ''tomcat-'' @ t1) s4 = None \<longrightarrow>
          installed ''tomcat-'' s4 = installed ''tomcat-'' s3)"
proof (intro conjI impI)
  let ?s0 = "s\<lparr>console := console s @ [Log ''Starting upgrade process...'']\<rparr>"
  let ?r = "rollbackUpgrade w (Some j1) (Some t1) s5"
  show u: "upgrade w s =
           (Return (), (snd ?r)\<lparr>console := console (snd ?r) @ [Err ''Upgrade process failed:'']\<rparr>)"
    by (rule upgrade_compensates [OF cfg cur val java tomcat s5])
  have f1: "s1\<lparr>console := console s\<rparr> = s"
    using getCurrentVersions_frame [where w = w and s = ?s0] cur
    by (cases s, cases s1) auto
  obtain cj' ct' s1' where cur': "getCurrentVersions w s1 = (Return (cj', ct'), s1')"
    using getCurrentVersions_returns [of w s1] by (cases "getCurrentVersions w s1") auto
  from validate_result(2) [OF cur', of "javaVersion cfg" "tomcatVersion cfg"] val
  have "s2\<lparr>console := console s1\<rparr> = s1" by simp
  from frame_trans [OF f1 this] have f2: "s2\<lparr>console := console s\<rparr> = s" .
  from ej xj same_but_console [OF f2]
  have ej2: "existing ''openjdk-'' s2 = ''openjdk-'' @ j1"
    and xj2: "lookup (Opt, ''openjdk-'' @ j1) s2 = Some xj"
    by simp_all
  from upgradeJava_Return_backup [OF java ej2] xj2
  have b3: "lookup (JavaBackups, ''openjdk-'' @ j1) s3 = Some xj" by simp
  have "lookup (JavaBackups, ''openjdk-'' @ j1)
          (snd (upgradeTomcat w (tomcatVersion cfg) (tomcatUrl cfg) (javaVersion cfg) s3))
        = lookup (JavaBackups, ''openjdk-'' @ j1) s3"
    by (rule preservesD [OF lk_upgradeTomcat_java])
  with tomcat b3
  have b4: "lookup (JavaBackups, ''openjdk-'' @ j1) s4 = Some xj" by simp
  then show b5: "lookup (JavaBackups, ''openjdk-'' @ j1) s5 = Some xj"
    by (simp add: s5)
  have t5: "lookup (TomcatBackups, n) s5 = lookup (TomcatBackups, n) s4"
    and i5: "installed ''tomcat-'' s5 = installed ''tomcat-'' s4" for n
    by (simp_all add: s5)
  {
    assume ok: "last (console (snd ?r)) = Log ''Rollback to previous versions completed successfully.''"
    note r = rollbackUpgrade_success [OF ok b5]
    from r show "installed ''openjdk-'' (snd (upgrade w s)) = [(''openjdk-'' @ j1, xj)]"
      by (simp add: u)
    from r show "installed ''tomcat-'' (snd (upgrade w s))
            = (case lookup (TomcatBackups, ''tomcat-'' @ t1) s4 of
                 Some xt \<Rightarrow> [(''tomcat-'' @ t1, xt)]
               | None \<Rightarrow> installed ''tomcat-'' s4)"
      by (simp add: u t5 i5 split: option.splits)
  }
  {
    assume et: "existing ''tomcat-'' s3 = ''tomcat-'' @ t1"
      and nb: "lookup (TomcatBackups, ''tomcat-'' @ t1) s4 = None"
    from upgradeTomcat_without_backup
           [of s3 w "tomcatVersion cfg" "tomcatUrl cfg" "javaVersion cfg"] et nb tomcat
    show "installed ''tomcat-'' s4 = installed ''tomcat-'' s3" by simp
  }
qed

theorem compensation_after_failed_tomcat_upgrade_witness:
  "upgrade_config host17 = Some desired21 \<and>
   existing ''openjdk-'' host17 = ''openjdk-17'' \<and>
   lookup (Opt, ''openjdk-17'') host17 = Some (Tree ''jdk-17'') \<and>
   fst (upgrade (world_no_download (tomcatUrl desired21)) host17) = Return () \<and>
   installed ''openjdk-'' (snd (upgrade (world_no_download (tomcatUrl desired21)) host17))
     = [(''openjdk-17'', Tree ''jdk-17'')] \<and>
   installed ''tomcat-'' (snd (upgrade (world_no_download (tomcatUrl desired21)) host17))
     = [(''tomcat-9.0.98'', Tree ''tomcat-9'')]"
proof -
  let ?w = "world_no_download (tomcatUrl desired21)"
  let ?s0 = "host17\<lparr>console := console host17 @ [Log ''Starting upgrade process...'']\<rparr>"
  let ?s1 = "snd (getCurrentVersions ?w ?s0)"
  let ?s2 = "snd (validateUpgradeConditions ?w ''21'' ''10.1.34'' ?s1)"
  let ?s3 = "snd (upgradeJava ?w ''21'' (javaUrl desired21) ?s2)"
  let ?t = "upgradeTomcat ?w ''10.1.34'' (tomcatUrl desired21) ''21'' ?s3"
  let ?s4 = "snd ?t"
  let ?s5 = "?s4\<lparr>console := console ?s4 @
                [Err ''Tomcat upgrade failed. Rolling back...'',
                 Log (''Rolling back Java '' @ ''21'' @ '' to '' @ show_version (Some ''17'')
                        @ '' since Tomcat failed...'')]\<rparr>"
  have cfg: "upgrade_config host17 = Some desired21" by code_simp
  have jv: "javaVersion desired21 = ''21''" and tv: "tomcatVersion desired21 = ''10.1.34''"
    by code_simp+
  have "fst (getCurrentVersions ?w ?s0) = Return (Some ''17'', Some ''9.0.98'')" by code_simp
  then have cur: "getCurrentVersions ?w ?s0 = (Return (Some ''17'', Some ''9.0.98''), ?s1)"
    by (cases "getCurrentVersions ?w ?s0") simp
  have "fst (validateUpgradeConditions ?w ''21'' ''10.1.34'' ?s1) = Return ()" by code_simp
  then have val: "validateUpgradeConditions ?w (javaVersion desired21) (tomcatVersion desired21) ?s1
                    = (Return (), ?s2)"
    unfolding jv tv by (cases "validateUpgradeConditions ?w ''21'' ''10.1.34'' ?s1") simp
  have "fst (upgradeJava ?w ''21'' (javaUrl desired21) ?s2) = Return True" by code_simp
  then have java: "upgradeJava ?w (javaVersion desired21) (javaUrl desired21) ?s2 = (Return True, ?s3)"
    unfolding jv by (cases "upgradeJava ?w ''21'' (javaUrl desired21) ?s2") simp
  have "fst ?t = Throw (CommandFailed (Wget (tomcatUrl desired21) (Tmp, ''tomcat-10.1.34.tar.gz'')))" by code_simp
  then have tomcat: "upgradeTomcat ?w (tomcatVersion desired21) (tomcatUrl desired21)
                       (javaVersion desired21) ?s3 = (Throw (CommandFailed (Wget (tomcatUrl desired21) (Tmp, ''tomcat-10.1.34.tar.gz''))), ?s4)"
    unfolding jv tv by (cases ?t) simp
  have s5: "?s5 = ?s4\<lparr>console := console ?s4 @
                [Err ''Tomcat upgrade failed. Rolling back...'',
                 Log (''Rolling back Java '' @ javaVersion desired21 @ '' to ''
                        @ show_version (Some ''17'') @ '' since Tomcat failed...'')]\<rparr>"
    unfolding jv ..
  have ej: "existing ''openjdk-'' host17 = ''openjdk-'' @ ''17''" by code_simp
  have xj: "lookup (Opt, ''openjdk-'' @ ''17'') host17 = Some (Tree ''jdk-17'')" by code_simp
  have ok: "last (console (snd (rollbackUpgrade ?w (Some ''17'') (Some ''9.0.98'') ?s5)))
              = Log ''Rollback to previous versions completed successfully.''"
    by code_simp
  have tb: "lookup (TomcatBackups, ''tomcat-'' @ ''9.0.98'') ?s4 = Some (Tree ''tomcat-9'')"
    by code_simp
  note T = compensation_after_failed_tomcat_upgrade [OF cfg cur val java tomcat s5 ej xj]
  note R = T [THEN conjunct2, THEN conjunct2, THEN conjunct1, THEN mp, OF ok]
  have n: "''openjdk-'' @ ''17'' = ''openjdk-17''" "''tomcat-'' @ ''9.0.98'' = ''tomcat-9.0.98''"
    by simp_all
  have c1: "fst (upgrade ?w host17) = Return ()"
    by (simp only: T [THEN conjunct1] fst_conv)
  from R [THEN conjunct1]
  have c2: "installed ''openjdk-'' (snd (upgrade ?w host17)) = [(''openjdk-17'', Tree ''jdk-17'')]"
    unfolding n .
  from R [THEN conjunct2]
  have c3: "installed ''tomcat-'' (snd (upgrade ?w host17)) = [(''tomcat-9.0.98'', Tree ''tomcat-9'')]"
    unfolding n tb [unfolded n] option.case .
  from cfg ej [unfolded n] xj [unfolded n] c1 c2 c3 show ?thesis
    by (intro conjI)
qed

section \<open>The environment after a rollback\<close>

text \<open>No command of rollback.js writes to \<^verbatim>\<open>/etc/profile\<close>.\<close>

lemma quiet_text_of [simp]: "quiet (\<lambda>s. text_of s f)"
  by (simp add: quiet_def)

lemma keeps_text_of: "\<not> edits c f \<Longrightarrow> keeps (\<lambda>s. text_of s f) w c"
  unfolding keeps_def
proof (induction c)
  case (OrTrue c)
  then show ?case by (auto split: option.splits)
qed (auto split: option.splits payload.splits if_splits simp: put_def remove_where_def set_text_def)

lemma profile_rollback: "preserves (\<lambda>s. text_of s EtcProfile) (rollback w)"
  unfolding rollback_def rollbackJava_def rollbackJava_try_def rollbackTomcat_def
    rollbackTomcat_try_def seq.simps Let_def
  by (intro preserves_rules) (simp_all add: keeps_text_of unit_file_def)

lemma profile_rollbackJava: "preserves (\<lambda>s. text_of s EtcProfile) (rollbackJava w)"
  unfolding rollbackJava_def rollbackJava_try_def seq.simps Let_def
  by (intro preserves_rules) (simp_all add: keeps_text_of)

text \<open>
  Claim C7 says that a successful rollback ends with the environment rebound to
  the restored version. rollback.js rebinds JAVA_HOME in \<^verbatim>\<open>/etc/environment\<close> and in
  no other file: no run of \<^verbatim>\<open>rollbackJava\<close> or of \<^verbatim>\<open>rollback\<close> changes \<^verbatim>\<open>/etc/profile\<close>,
  the file in which \<^verbatim>\<open>upgradeJava\<close>, \<^verbatim>\<open>rollbackUpgrade\<close> and \<^verbatim>\<open>installJava\<close> export
  JAVA_HOME. On \<open>host21\<close> (Java 21 installed and exported by \<^verbatim>\<open>/etc/profile\<close>, a
  backup of Java 17) \<^verbatim>\<open>rollback\<close> prints its message of success, Java 17 is the only
  Java installation, \<^verbatim>\<open>/etc/environment\<close> binds JAVA_HOME to \<^verbatim>\<open>/opt/openjdk-17\<close>, and
  \<^verbatim>\<open>/etc/profile\<close> still exports \<^verbatim>\<open>JAVA_HOME=/opt/openjdk-21\<close>, a directory that is
  gone. The version that a rollback restores is that of the backup that comes
  last in version order: once \<open>host21\<close> has been upgraded to Java 22, with the
  backups of 17 and 21, \<^verbatim>\<open>rollback\<close> ends with Java 21 installed, not Java 17.
\<close>

theorem rollback_leaves_profile_as_it_was:
  "text_of (snd (rollbackJava w s)) EtcProfile = text_of s EtcProfile \<and>
   text_of (snd (rollback w s)) EtcProfile = text_of s EtcProfile \<and>
   installed ''openjdk-'' host21 = [(''openjdk-21'', Tree ''https://dl/jdk-21.tar.gz'')] \<and>
   lookup (JavaBackups, ''openjdk-17'') host21 = Some (Tree ''jdk-17'') \<and>
   text_of host21 EtcProfile
     = Some [''export JAVA_HOME=/opt/openjdk-21'', ''export PATH=$JAVA_HOME/bin:$PATH''] \<and>
   last (console (snd (rollback world_ok host21)))
     = Log ''Rollback process completed successfully.'' \<and>
   installed ''openjdk-'' (snd (rollback world_ok host21)) = [(''openjdk-17'', Tree ''jdk-17'')] \<and>
   lookup (Opt, ''openjdk-21'') (snd (rollback world_ok host21)) = None \<and>
   map_option (filter (starts_with ''JAVA_HOME=''))
       (text_of (snd (rollback world_ok host21)) EtcEnvironment)
     = Some [''JAVA_HOME='' @ dquote @ ''/opt/openjdk-17'' @ dquote] \<and>
   text_of (snd (rollback world_ok host21)) EtcProfile
     = Some [''export JAVA_HOME=/opt/openjdk-21'', ''export PATH=$JAVA_HOME/bin:$PATH''] \<and>
   installed ''openjdk-'' (snd (upgradeJava world_ok ''22'' ''https://dl/jdk-22.tar.gz'' host21))
     = [(''openjdk-22'', Tree ''https://dl/jdk-22.tar.gz'')] \<and>
   lookup (JavaBackups, ''openjdk-17'')
       (snd (upgradeJava world_ok ''22'' ''https://dl/jdk-22.tar.gz'' host21))
     = Some (Tree ''jdk-17'') \<and>
   last (console (snd (rollback world_ok
       (snd (upgradeJava world_ok ''22'' ''https://dl/jdk-22.tar.gz'' host21)))))
     = Log ''Rollback process completed successfully.'' \<and>
   installed ''openjdk-'' (snd (rollback world_ok
       (snd (upgradeJava world_ok ''22'' ''https://dl/jdk-22.tar.gz'' host21))))
     = [(''openjdk-21'', Tree ''https://dl/jdk-21.tar.gz'')]"
proof (intro conjI)
  show "text_of (snd (rollbackJava w s)) EtcProfile = text_of s EtcProfile"
    by (rule preservesD [OF profile_rollbackJava])
  show "text_of (snd (rollback w s)) EtcProfile = text_of s EtcProfile"
    by (rule preservesD [OF profile_rollback])
qed code_simp+

end
